theory Spec2Isabelle
  imports Complex_Main "HOL-Library.Sublist"
begin

section \<open>The NXTP SDK base: quote, prepare and fulfil\<close>

text \<open>
  A shallow embedding of \<^verbatim>\<open>NxtpSdkBase\<close> (\<^verbatim>\<open>getTransferQuote\<close>,
  \<^verbatim>\<open>prepareTransfer\<close>, \<^verbatim>\<open>fulfillTransfer\<close>) and of the expiry helpers of
  \<^verbatim>\<open>packages/sdk/src/utils.ts\<close>.

  Conventions.
  \<^item> Amounts are decimal strings read through \<^verbatim>\<open>BigNumber\<close> (arbitrary precision, signed):
    they are \<open>int\<close>. Timestamps and expiries are JavaScript numbers holding integers:
    \<open>int\<close> as well.
  \<^item> \<^verbatim>\<open>slippageTolerance\<close> is a string read with \<^verbatim>\<open>parseFloat\<close>; the model keeps the
    number it denotes as a \<open>rat\<close> and computes exactly where the code computes in
    IEEE doubles.
  \<^item> An optional field (\<^verbatim>\<open>x?: T\<close>) is an \<open>option\<close>.
  \<^item> Every \<^verbatim>\<open>throw\<close> and every rejected promise is an \<open>Inl\<close> of the result
    \<open>sdk_error + 'a\<close>.
  \<^item> Everything the class reaches through its collaborators (schema validator, signer,
    providers, subgraph, transaction manager, messaging, hashing) is a field of the
    record \<open>Env\<close>; logging is left out. A collaborator that can throw
    (\<^verbatim>\<open>utils.getAddress\<close> on a malformed address, \<^verbatim>\<open>recoverAuctionBid\<close> on a
    missing or unparseable signature, \<^verbatim>\<open>encodeAuctionBid\<close> on a value out of range)
    answers with an \<open>Inl\<close>, the message of the error.
  \<^item> Messages and events come with the time, in milliseconds, at which they are posted,
    counted from the moment the handler is attached, in posting order.
\<close>

subsection \<open>Data\<close>

record AuctionBid =
  user :: string
  router :: string
  initiator :: string
  sendingChainId :: nat
  sendingAssetId :: string
  amount :: int
  receivingChainId :: nat
  receivingAssetId :: string
  amountReceived :: int
  receivingAddress :: string
  transactionId :: string
  expiry :: int
  callDataHash :: string
  callTo :: string
  encryptedCallData :: string
  bidExpiry :: int

record AuctionResponse =
  bid :: AuctionBid
  bidSignature :: "string option"
  gasFeeInReceivingToken :: int

record CrossChainParams =
  p_callData :: "string option"
  p_sendingChainId :: nat
  p_sendingAssetId :: string
  p_receivingChainId :: nat
  p_receivingAssetId :: string
  p_callTo :: "string option"
  p_receivingAddress :: string
  p_amount :: int
  p_expiry :: "int option"
  p_transactionId :: "string option"
  p_slippageTolerance :: "rat option"
  p_dryRun :: "bool option"
  p_preferredRouters :: "string list option"
  p_initiator :: "string option"

text \<open>The payload published with the auction request (\<^verbatim>\<open>const payload = {...}\<close>).\<close>

record AuctionPayload =
  pl_user :: string
  pl_initiator :: string
  pl_sendingChainId :: nat
  pl_sendingAssetId :: string
  pl_amount :: int
  pl_receivingChainId :: nat
  pl_receivingAssetId :: string
  pl_receivingAddress :: string
  pl_callTo :: string
  pl_callDataHash :: string
  pl_encryptedCallData :: string
  pl_expiry :: int
  pl_transactionId :: string
  pl_dryRun :: bool

record InvariantTransactionData =
  tx_receivingChainTxManagerAddress :: "string option"
  tx_user :: string
  tx_router :: string
  tx_initiator :: string
  tx_sendingAssetId :: string
  tx_receivingAssetId :: string
  tx_sendingChainFallback :: string
  tx_callTo :: string
  tx_receivingAddress :: string
  tx_sendingChainId :: nat
  tx_receivingChainId :: nat
  tx_callDataHash :: string
  tx_transactionId :: string

record TransactionData = InvariantTransactionData +
  tx_amount :: int
  tx_expiry :: int
  tx_preparedBlockNumber :: nat

record PrepareParams =
  pp_txData :: InvariantTransactionData
  pp_encryptedCallData :: string
  pp_bidSignature :: string
  pp_encodedBid :: string
  pp_amount :: int
  pp_expiry :: int

record TransactionPreparedEvent =
  ev_txData :: TransactionData
  ev_encryptedCallData :: string
  ev_encodedBid :: string
  ev_bidSignature :: string

record TransactionFulfilledEvent =
  fe_txData :: TransactionData
  fe_signature :: string
  fe_relayerFee :: int
  fe_callData :: string
  fe_transactionHash :: string

record FulfillParams =
  fp_callData :: string
  fp_relayerFee :: int
  fp_signature :: string
  fp_txData :: TransactionData

record MetaTxRequest =
  mr_relayerFee :: int
  mr_to :: "string option"
  mr_chainId :: nat
  mr_data :: FulfillParams

record MetaTxResponse =
  mt_transactionHash :: string
  mt_chainId :: nat

record TransactionRequest =
  rq_to :: string
  rq_data :: string
  rq_chainId :: nat

record FulfillResult =
  fulfillRequest :: "TransactionRequest option"
  metaTxResponse :: "MetaTxResponse option"

record SubgraphSyncRecord =
  synced :: bool
  syncedBlock :: nat
  latestBlock :: nat

text \<open>A message on the auction response topic: \<^verbatim>\<open>{ inbox; data?; err? }\<close>.\<close>

record BusMessage =
  m_inbox :: string
  m_data :: "AuctionResponse option"
  m_err :: "string option"

subsection \<open>Errors\<close>

text \<open>
  The error classes of \<^verbatim>\<open>./error\<close> with the arguments that identify them; the echoed
  request payloads and the list of configured chains are left out. \<open>JsError\<close> is an
  error raised outside the SDK (messaging, provider, wallet, event library), with its
  message; the environment gives such a failure as the message alone.
\<close>

datatype sdk_error =
    InvalidParamStructure string string string
  | ChainNotConfigured nat
  | SubgraphsNotSynced SubgraphSyncRecord SubgraphSyncRecord
  | InvalidSlippage rat rat rat
  | InvalidExpiry int int int int
  | EncryptionError string
  | NoBids nat string
  | NoValidBids string string "AuctionResponse list"
  | UnknownAuctionError string sdk_error
  | InvalidBidSignature string string
  | InvalidCallTo string string
  | MetaTxTimeout string nat
  | JsError string

subsection \<open>The environment\<close>

record Provider =
  getCode :: "string \<Rightarrow> string + string"

record Env =
  validateCrossChainParams :: "CrossChainParams \<Rightarrow> string option"
  validateAuctionBidParams :: "AuctionBid \<Rightarrow> string option"
  validateTransactionPrepareEvent :: "TransactionPreparedEvent \<Rightarrow> string option"
  signerAddress :: string
  chainConfig :: "nat \<Rightarrow> Provider option"
  getSyncStatus :: "nat \<Rightarrow> SubgraphSyncRecord option"
  getRandomBytes32 :: string
  getTimestampInSeconds :: int
  getAddress :: "string \<Rightarrow> string + string"
  keccak256 :: "string \<Rightarrow> string"
  encryptCallData :: "string \<Rightarrow> string \<Rightarrow> string + string"
  isConnected :: bool
  connect :: "string option"
  generateMessagingInbox :: string
  publishAuctionRequest :: "AuctionPayload \<Rightarrow> string \<Rightarrow> string option"
  publishMetaTxRequest :: "MetaTxRequest \<Rightarrow> string \<Rightarrow> string option"
  recoverAuctionBid :: "AuctionBid \<Rightarrow> string \<Rightarrow> string + string"
  encodeAuctionBid :: "AuctionBid \<Rightarrow> string + string"
  getRouterLiquidity :: "nat \<Rightarrow> string \<Rightarrow> string \<Rightarrow> string + int"
  getTransactionManagerAddress :: "nat \<Rightarrow> string option"
  tmPrepare :: "nat \<Rightarrow> PrepareParams \<Rightarrow> sdk_error + TransactionRequest"
  tmFulfill :: "nat \<Rightarrow> FulfillParams \<Rightarrow> sdk_error + TransactionRequest"

subsection \<open>Constants\<close>

definition MIN_SLIPPAGE_TOLERANCE :: rat where
  "MIN_SLIPPAGE_TOLERANCE = 1 / 100"

definition MAX_SLIPPAGE_TOLERANCE :: rat where
  "MAX_SLIPPAGE_TOLERANCE = 15"

definition DEFAULT_SLIPPAGE_TOLERANCE :: rat where
  "DEFAULT_SLIPPAGE_TOLERANCE = 1 / 10"

definition AUCTION_TIMEOUT :: nat where
  "AUCTION_TIMEOUT = 6000"

definition META_TX_TIMEOUT :: nat where
  "META_TX_TIMEOUT = 300000"

definition AddressZero :: string where
  "AddressZero = ''0x0000000000000000000000000000000000000000''"

subsection \<open>utils.ts\<close>

definition hoursToSeconds :: "int \<Rightarrow> int" where
  "hoursToSeconds hours = hours * 60 * 60"

definition daysToSeconds :: "int \<Rightarrow> int" where
  "daysToSeconds days = hoursToSeconds (days * 24)"

definition getExpiry :: "int \<Rightarrow> int" where
  "getExpiry latestBlockTimestamp = latestBlockTimestamp + daysToSeconds 3 + hoursToSeconds 3"

definition getMinExpiryBuffer :: int where
  "getMinExpiryBuffer = daysToSeconds 2 + hoursToSeconds 1"

definition getMaxExpiryBuffer :: int where
  "getMaxExpiryBuffer = daysToSeconds 4"

subsection \<open>JavaScript helpers\<close>

text \<open>Truthiness of an optional string: \<^verbatim>\<open>undefined\<close> and \<^verbatim>\<open>""\<close> are falsy.\<close>

definition truthy :: "string option \<Rightarrow> bool" where
  "truthy s = (case s of None \<Rightarrow> False | Some v \<Rightarrow> v \<noteq> [])"

text \<open>\<^verbatim>\<open>String.prototype.includes\<close>.\<close>

fun includes_str :: "string \<Rightarrow> string \<Rightarrow> bool" where
  "includes_str [] sub = (sub = [])"
| "includes_str (c # cs) sub = (prefix sub (c # cs) \<or> includes_str cs sub)"

text \<open>\<^verbatim>\<open>Array.prototype.join(",")\<close>.\<close>

fun join_comma :: "string list \<Rightarrow> string" where
  "join_comma [] = []"
| "join_comma [s] = s"
| "join_comma (s # t # ss) = s @ '','' @ join_comma (t # ss)"

text \<open>
  The results of a list of calls, or the error of the first call in the list that
  failed. This is \<^verbatim>\<open>Array.prototype.map\<close> with a callback that may throw (the first
  throw ends the loop), and \<^verbatim>\<open>Promise.all\<close> over promises that reject as soon as
  they are created (the rejection of the first one in the list is the one reported).
\<close>

fun allOrFirst :: "('e + 'a) list \<Rightarrow> 'e + 'a list" where
  "allOrFirst [] = Inr []"
| "allOrFirst (Inl e # rs) = Inl e"
| "allOrFirst (Inr x # rs) =
     (case allOrFirst rs of Inl e \<Rightarrow> Inl e | Inr xs \<Rightarrow> Inr (x # xs))"

text \<open>Decimal digits of a number, as a template literal prints it.\<close>

fun decimal :: "nat \<Rightarrow> string" where
  "decimal n =
     (if n < 10 then [char_of (48 + n)]
      else decimal (n div 10) @ [char_of (48 + n mod 10)])"

text \<open>
  \<^verbatim>\<open>Evt.waitFor(timeout)\<close> behind a chain of \<^verbatim>\<open>pipe\<close> filters (of the \<^verbatim>\<open>evt\<close>
  library): it resolves with the first posted value that passes the filters before the
  timeout elapses, and rejects otherwise, with an error whose message is the \<open>Inl\<close>
  of the result. \<open>evs\<close> lists the values posted after the call, each with its
  posting time in milliseconds.
\<close>

definition evt_waitFor :: "nat \<Rightarrow> ('a \<Rightarrow> bool) \<Rightarrow> (nat \<times> 'a) list \<Rightarrow> string + 'a" where
  "evt_waitFor timeout flt evs =
     (case find (\<lambda>(t, e). t < timeout \<and> flt e) evs of
        None \<Rightarrow> Inl (''Evt timeout after '' @ decimal timeout @ ''ms'')
      | Some (t, e) \<Rightarrow> Inr e)"

text \<open>
  \<^verbatim>\<open>Array.prototype.sort(compareFn)\<close>, as the stable insertion sort that puts an
  element in front of the first element it compares negative to. ECMAScript fixes
  the result only for a consistent comparator; every conforming sort agrees with this
  one on inputs that the comparator orders strictly.
\<close>

fun insert_cmp :: "('a \<Rightarrow> 'a \<Rightarrow> int) \<Rightarrow> 'a \<Rightarrow> 'a list \<Rightarrow> 'a list" where
  "insert_cmp cmp x [] = [x]"
| "insert_cmp cmp x (y # ys) =
     (if cmp x y < 0 then x # y # ys else y # insert_cmp cmp x ys)"

definition sort_cmp :: "('a \<Rightarrow> 'a \<Rightarrow> int) \<Rightarrow> 'a list \<Rightarrow> 'a list" where
  "sort_cmp cmp xs = foldl (\<lambda>acc x. insert_cmp cmp x acc) [] xs"

subsection \<open>getTransferQuote: the checks before the auction\<close>

text \<open>\<^verbatim>\<open>getSubgraphSyncStatus\<close>: the subgraph's record, or the unsynced default.\<close>

definition getSubgraphSyncStatus :: "Env \<Rightarrow> nat \<Rightarrow> SubgraphSyncRecord" where
  "getSubgraphSyncStatus env chainId =
     (case getSyncStatus env chainId of
        Some record \<Rightarrow> record
      | None \<Rightarrow> \<lparr>synced = False, syncedBlock = 0, latestBlock = 0\<rparr>)"

text \<open>The values \<^verbatim>\<open>getTransferQuote\<close> derives from its parameters (lines 314 to 386).\<close>

definition transactionIdOf :: "Env \<Rightarrow> CrossChainParams \<Rightarrow> string" where
  "transactionIdOf env params =
     (case p_transactionId params of None \<Rightarrow> getRandomBytes32 env | Some t \<Rightarrow> t)"

definition slippageToleranceOf :: "CrossChainParams \<Rightarrow> rat" where
  "slippageToleranceOf params =
     (case p_slippageTolerance params of None \<Rightarrow> DEFAULT_SLIPPAGE_TOLERANCE | Some s \<Rightarrow> s)"

text \<open>Line 373: an address that \<^verbatim>\<open>utils.getAddress\<close> refuses makes the call throw.\<close>

definition preferredRoutersOf :: "Env \<Rightarrow> CrossChainParams \<Rightarrow> sdk_error + string list" where
  "preferredRoutersOf env params =
     (case allOrFirst
             (map (getAddress env)
                (case p_preferredRouters params of None \<Rightarrow> [] | Some rs \<Rightarrow> rs)) of
        Inl e \<Rightarrow> Inl (JsError e)
      | Inr preferredRouters \<Rightarrow> Inr preferredRouters)"

definition expiryOf :: "Env \<Rightarrow> CrossChainParams \<Rightarrow> int" where
  "expiryOf env params =
     (case p_expiry params of None \<Rightarrow> getExpiry (getTimestampInSeconds env) | Some e \<Rightarrow> e)"

definition callToOf :: "CrossChainParams \<Rightarrow> string" where
  "callToOf params = (case p_callTo params of None \<Rightarrow> AddressZero | Some a \<Rightarrow> a)"

definition callDataOf :: "CrossChainParams \<Rightarrow> string" where
  "callDataOf params = (case p_callData params of None \<Rightarrow> ''0x'' | Some d \<Rightarrow> d)"

definition dryRunOf :: "CrossChainParams \<Rightarrow> bool" where
  "dryRunOf params = (p_dryRun params = Some True)"

text \<open>
  Lines 323 to 383: schema, configured chains, synced subgraphs, slippage bounds, the
  normalisation of the preferred routers and expiry bounds, in this order. The result
  is the error thrown, if any, and the preferred routers of line 373 otherwise.
\<close>

definition quoteChecks :: "Env \<Rightarrow> CrossChainParams \<Rightarrow> sdk_error + string list" where
  "quoteChecks env params =
     (case validateCrossChainParams env params of
        Some msg \<Rightarrow> Inl (InvalidParamStructure ''getTransferQuote'' ''CrossChainParams'' msg)
      | None \<Rightarrow>
      let slippageTolerance = slippageToleranceOf params;
          sendingSyncStatus = getSubgraphSyncStatus env (p_sendingChainId params);
          receivingSyncStatus = getSubgraphSyncStatus env (p_receivingChainId params);
          blockTimestamp = getTimestampInSeconds env;
          expiry = expiryOf env params
      in
      if chainConfig env (p_sendingChainId params) = None
      then Inl (ChainNotConfigured (p_sendingChainId params))
      else if chainConfig env (p_receivingChainId params) = None
      then Inl (ChainNotConfigured (p_receivingChainId params))
      else if \<not> synced sendingSyncStatus \<or> \<not> synced receivingSyncStatus
      then Inl (SubgraphsNotSynced sendingSyncStatus receivingSyncStatus)
      else if slippageTolerance < MIN_SLIPPAGE_TOLERANCE
      then Inl (InvalidSlippage slippageTolerance MIN_SLIPPAGE_TOLERANCE MAX_SLIPPAGE_TOLERANCE)
      else if slippageTolerance > MAX_SLIPPAGE_TOLERANCE
      then Inl (InvalidSlippage slippageTolerance MIN_SLIPPAGE_TOLERANCE MAX_SLIPPAGE_TOLERANCE)
      else
     (case preferredRoutersOf env params of
        Inl e \<Rightarrow> Inl e
      | Inr preferredRouters \<Rightarrow>
          if expiry - blockTimestamp < getMinExpiryBuffer
          then Inl (InvalidExpiry expiry getMinExpiryBuffer getMaxExpiryBuffer blockTimestamp)
          else if expiry - blockTimestamp > getMaxExpiryBuffer
          then Inl (InvalidExpiry expiry getMinExpiryBuffer getMaxExpiryBuffer blockTimestamp)
          else Inr preferredRouters))"

text \<open>Lines 388 to 397: the call data is encrypted unless it is empty.\<close>

definition encryptedCallDataOf :: "Env \<Rightarrow> CrossChainParams \<Rightarrow> sdk_error + string" where
  "encryptedCallDataOf env params =
     (if callDataOf params \<noteq> ''0x'' then
        (case encryptCallData env (signerAddress env) (callDataOf params) of
           Inl e \<Rightarrow> Inl (EncryptionError ''public key encryption failed'')
         | Inr encrypted \<Rightarrow> Inr encrypted)
      else Inr ''0x'')"

text \<open>Lines 399 to 401 and 808 to 810: an error of the messaging service is thrown as it is.\<close>

definition ensureConnected :: "Env \<Rightarrow> sdk_error option" where
  "ensureConnected env =
     (if \<not> isConnected env
      then (case connect env of Some e \<Rightarrow> Some (JsError e) | None \<Rightarrow> None)
      else None)"

text \<open>Lines 459 to 474.\<close>

definition auctionPayload :: "Env \<Rightarrow> CrossChainParams \<Rightarrow> string \<Rightarrow> AuctionPayload" where
  "auctionPayload env params encrypted =
     \<lparr>pl_user = signerAddress env,
      pl_initiator = (case p_initiator params of None \<Rightarrow> signerAddress env | Some i \<Rightarrow> i),
      pl_sendingChainId = p_sendingChainId params,
      pl_sendingAssetId = p_sendingAssetId params,
      pl_amount = p_amount params,
      pl_receivingChainId = p_receivingChainId params,
      pl_receivingAssetId = p_receivingAssetId params,
      pl_receivingAddress = p_receivingAddress params,
      pl_callTo = callToOf params,
      pl_callDataHash = keccak256 env (callDataOf params),
      pl_encryptedCallData = encrypted,
      pl_expiry = expiryOf env params,
      pl_transactionId = transactionIdOf env params,
      pl_dryRun = dryRunOf params\<rparr>"

text \<open>What the first part of \<^verbatim>\<open>getTransferQuote\<close> hands to the auction.\<close>

record QuoteCtx =
  q_transactionId :: string
  q_receivingChainId :: nat
  q_receivingAssetId :: string
  q_slippageTolerance :: rat
  q_dryRun :: bool
  q_preferredRouters :: "string list"
  q_inbox :: string
  q_payload :: AuctionPayload

definition quoteCtx ::
  "Env \<Rightarrow> CrossChainParams \<Rightarrow> string list \<Rightarrow> AuctionPayload \<Rightarrow> QuoteCtx" where
  "quoteCtx env params preferredRouters payload =
     \<lparr>q_transactionId = transactionIdOf env params,
      q_receivingChainId = p_receivingChainId params,
      q_receivingAssetId = p_receivingAssetId params,
      q_slippageTolerance = slippageToleranceOf params,
      q_dryRun = dryRunOf params,
      q_preferredRouters = preferredRouters,
      q_inbox = generateMessagingInbox env,
      q_payload = payload\<rparr>"

text \<open>
  Everything \<^verbatim>\<open>getTransferQuote\<close> does outside its \<^verbatim>\<open>try\<close> block: the checks,
  the encryption, the connection and the publication of the auction request
  (line 475).
\<close>

definition preAuction :: "Env \<Rightarrow> CrossChainParams \<Rightarrow> sdk_error + QuoteCtx" where
  "preAuction env params =
     (case quoteChecks env params of
        Inl e \<Rightarrow> Inl e
      | Inr preferredRouters \<Rightarrow>
     (case encryptedCallDataOf env params of
        Inl e \<Rightarrow> Inl e
      | Inr encrypted \<Rightarrow>
     (case ensureConnected env of
        Some e \<Rightarrow> Inl e
      | None \<Rightarrow>
     (let payload = auctionPayload env params encrypted in
      case publishAuctionRequest env payload (generateMessagingInbox env) of
        Some e \<Rightarrow> Inl (JsError e)
      | None \<Rightarrow> Inr (quoteCtx env params preferredRouters payload)))))"

subsection \<open>getTransferQuote: the auction\<close>

text \<open>
  Lines 405 to 457: the three ways of collecting responses. A dry run and a quote with
  preferred routers wait for one message; an open auction keeps every message that
  passes the filters until the timer fires (\<open>collected\<close> is the array \<^verbatim>\<open>bids\<close> at
  that moment). A message whose router \<^verbatim>\<open>utils.getAddress\<close> refuses makes the filter
  of line 428 throw into the code that posted the message; the wait goes on, so the
  message counts as one that does not pass.
\<close>

definition acceptable :: "string \<Rightarrow> BusMessage \<Rightarrow> bool" where
  "acceptable inbox d = (m_inbox d = inbox \<and> m_data d \<noteq> None \<and> \<not> truthy (m_err d))"

definition collected :: "string \<Rightarrow> (nat \<times> BusMessage) list \<Rightarrow> AuctionResponse list" where
  "collected inbox msgs =
     map (\<lambda>(t, d). the (m_data d))
       (filter (\<lambda>(t, d). t < AUCTION_TIMEOUT \<and> acceptable inbox d) msgs)"

definition collectBids ::
  "Env \<Rightarrow> QuoteCtx \<Rightarrow> (nat \<times> BusMessage) list \<Rightarrow> sdk_error + AuctionResponse list" where
  "collectBids env ctx msgs =
     (if q_dryRun ctx then
        (case evt_waitFor AUCTION_TIMEOUT (acceptable (q_inbox ctx)) msgs of
           Inl e \<Rightarrow> Inl (JsError e)
         | Inr result \<Rightarrow> Inr [the (m_data result)])
      else if length (q_preferredRouters ctx) > 0 then
        (case evt_waitFor (AUCTION_TIMEOUT * 2)
                (\<lambda>d. acceptable (q_inbox ctx) d \<and>
                      (case getAddress env (router (bid (the (m_data d)))) of
                         Inl e \<Rightarrow> False
                       | Inr a \<Rightarrow> a \<in> set (q_preferredRouters ctx)))
                msgs of
           Inl e \<Rightarrow> Inl (JsError e)
         | Inr result \<Rightarrow> Inr [the (m_data result)])
      else Inr (collected (q_inbox ctx) msgs))"

text \<open>
  Modelled from the spec: \<^verbatim>\<open>calculateExchangeAmount\<close> of the utilities package is
  not among the sources. The spec gives the lower bound as
  \<open>floor(amtMinusGas \<times> (1 - slippageTolerance/100))\<close>, the product taken exactly
  and its integer portion kept.
\<close>

definition calculateExchangeAmount :: "int \<Rightarrow> rat \<Rightarrow> rat" where
  "calculateExchangeAmount inputAmount swapRate = of_int inputAmount * swapRate"

text \<open>
  Modelled from the spec: the integer portion of the decimal string that
  \<^verbatim>\<open>calculateExchangeAmount\<close> returns (\<^verbatim>\<open>.split(".")[0]\<close>), a floor.
\<close>

definition integerPortion :: "rat \<Rightarrow> int" where
  "integerPortion q = \<lfloor>q\<rfloor>"

definition lowerBoundOf :: "rat \<Rightarrow> AuctionResponse \<Rightarrow> int" where
  "lowerBoundOf slippageTolerance d =
     (let lowerBoundExchangeRate = 1 - slippageTolerance / 100;
          amtMinusGas = amountReceived (bid d) - gasFeeInReceivingToken d
      in integerPortion (calculateExchangeAmount amtMinusGas lowerBoundExchangeRate))"

text \<open>
  Lines 498 to 554: what the validation makes of one response once the signer of its
  bid is known, either the reason for dropping the response or the response itself.
\<close>

definition judgeBid ::
  "Env \<Rightarrow> QuoteCtx \<Rightarrow> string \<Rightarrow> AuctionResponse \<Rightarrow> string + AuctionResponse" where
  "judgeBid env ctx signer d =
     (if signer \<noteq> router (bid d) then Inl ''Invalid router signature on bid''
      else
        case getRouterLiquidity env (q_receivingChainId ctx) (router (bid d))
               (q_receivingAssetId ctx) of
          Inl err \<Rightarrow> Inl ''Error getting router liquidity''
        | Inr routerLiq \<Rightarrow>
            if routerLiq < amountReceived (bid d) then Inl ''Router's liquidity low''
            else if amountReceived (bid d) < lowerBoundOf (q_slippageTolerance ctx) d
            then Inl ''Invalid bid price: price impact is more than the slippage tolerance''
            else Inr d)"

text \<open>
  Lines 494 to 555: the validation of one response. The signer is recovered at line
  497, outside the \<^verbatim>\<open>try\<close> of lines 505 to 530: when \<^verbatim>\<open>recoverAuctionBid\<close>
  throws, the promise of this response rejects (the outer \<open>Inl\<close>).
\<close>

definition validateBid ::
  "Env \<Rightarrow> QuoteCtx \<Rightarrow> AuctionResponse \<Rightarrow> sdk_error + (string + AuctionResponse)" where
  "validateBid env ctx d =
     (case recoverAuctionBid env (bid d)
             (case bidSignature d of None \<Rightarrow> [] | Some s \<Rightarrow> s) of
        Inl e \<Rightarrow> Inl (JsError e)
      | Inr signer \<Rightarrow> Inr (judgeBid env ctx signer d))"

fun validOf :: "(string + AuctionResponse) list \<Rightarrow> AuctionResponse list" where
  "validOf [] = []"
| "validOf (Inr d # xs) = d # validOf xs"
| "validOf (Inl msg # xs) = validOf xs"

fun invalidOf :: "(string + AuctionResponse) list \<Rightarrow> string list" where
  "invalidOf [] = []"
| "invalidOf (Inl msg # xs) = msg # invalidOf xs"
| "invalidOf (Inr d # xs) = invalidOf xs"

text \<open>The comparator of line 564.\<close>

definition compareBids :: "AuctionResponse \<Rightarrow> AuctionResponse \<Rightarrow> int" where
  "compareBids a b = (if amountReceived (bid b) > amountReceived (bid a) then - 1 else 1)"

text \<open>The body of the \<^verbatim>\<open>try\<close> block, lines 481 to 566.\<close>

definition auctionBody ::
  "Env \<Rightarrow> QuoteCtx \<Rightarrow> (nat \<times> BusMessage) list \<Rightarrow> sdk_error + AuctionResponse" where
  "auctionBody env ctx msgs =
     (case collectBids env ctx msgs of
        Inl e \<Rightarrow> Inl e
      | Inr auctionResponses \<Rightarrow>
          if length auctionResponses = 0
          then Inl (NoBids AUCTION_TIMEOUT (q_transactionId ctx))
          else if q_dryRun ctx then Inr (hd auctionResponses)
          else
           (case allOrFirst (map (validateBid env ctx) auctionResponses) of
              Inl e \<Rightarrow> Inl e
            | Inr filtered \<Rightarrow>
                let valid = validOf filtered;
                    invalid = invalidOf filtered
                in
                if length valid = 0
                then Inl (NoValidBids (q_transactionId ctx) (join_comma invalid)
                            auctionResponses)
                else Inr (hd (sort_cmp compareBids valid))))"

text \<open>The \<^verbatim>\<open>catch\<close> of line 567 wraps whatever the block throws.\<close>

definition auction ::
  "Env \<Rightarrow> QuoteCtx \<Rightarrow> (nat \<times> BusMessage) list \<Rightarrow> sdk_error + AuctionResponse" where
  "auction env ctx msgs =
     (case auctionBody env ctx msgs of
        Inl e \<Rightarrow> Inl (UnknownAuctionError (q_transactionId ctx) e)
      | Inr chosen \<Rightarrow> Inr chosen)"

definition getTransferQuote ::
  "Env \<Rightarrow> CrossChainParams \<Rightarrow> (nat \<times> BusMessage) list \<Rightarrow> sdk_error + AuctionResponse" where
  "getTransferQuote env params msgs =
     (case preAuction env params of
        Inl e \<Rightarrow> Inl e
      | Inr ctx \<Rightarrow> auction env ctx msgs)"

subsection \<open>prepareTransfer\<close>

text \<open>Lines 676 to 681: a call target other than the zero address must hold code.\<close>

definition callToCheck :: "Provider \<Rightarrow> AuctionBid \<Rightarrow> sdk_error option" where
  "callToCheck provider b =
     (if callTo b \<noteq> AddressZero then
        (case getCode provider (callTo b) of
           Inl e \<Rightarrow> Some (JsError e)
         | Inr callToContractCode \<Rightarrow>
             if callToContractCode = [] \<or> callToContractCode = ''0x''
             then Some (InvalidCallTo (transactionId b) (callTo b))
             else None)
      else None)"

text \<open>Lines 684 to 698.\<close>

definition txDataOf :: "Env \<Rightarrow> AuctionBid \<Rightarrow> InvariantTransactionData" where
  "txDataOf env b =
     \<lparr>tx_receivingChainTxManagerAddress = getTransactionManagerAddress env (receivingChainId b),
      tx_user = user b,
      tx_router = router b,
      tx_initiator = initiator b,
      tx_sendingAssetId = sendingAssetId b,
      tx_receivingAssetId = receivingAssetId b,
      tx_sendingChainFallback = user b,
      tx_callTo = callTo b,
      tx_receivingAddress = receivingAddress b,
      tx_sendingChainId = sendingChainId b,
      tx_receivingChainId = receivingChainId b,
      tx_callDataHash = callDataHash b,
      tx_transactionId = transactionId b\<rparr>"

text \<open>
  Lines 613 to 706: everything up to the call of the transaction manager, that is the
  chain to prepare on and the parameters of the call. The bid is encoded at line 662,
  after the schema check and before the checks of the chains, of the signature and of
  the call target; an error of \<^verbatim>\<open>encodeAuctionBid\<close> is thrown as it is.
\<close>

definition prepareParams :: "Env \<Rightarrow> AuctionResponse \<Rightarrow> sdk_error + nat \<times> PrepareParams" where
  "prepareParams env transferParams =
     (let b = bid transferParams;
          sendingSyncStatus = getSubgraphSyncStatus env (sendingChainId b);
          receivingSyncStatus = getSubgraphSyncStatus env (receivingChainId b)
      in
      if \<not> synced sendingSyncStatus \<or> \<not> synced receivingSyncStatus
      then Inl (SubgraphsNotSynced sendingSyncStatus receivingSyncStatus)
      else
      case validateAuctionBidParams env b of
        Some msg \<Rightarrow> Inl (InvalidParamStructure ''prepareTransfer'' ''AuctionResponse'' msg)
      | None \<Rightarrow>
     (case encodeAuctionBid env b of
        Inl e \<Rightarrow> Inl (JsError e)
      | Inr encodedBid \<Rightarrow>
      if chainConfig env (sendingChainId b) = None
      then Inl (ChainNotConfigured (sendingChainId b))
      else
     (case chainConfig env (receivingChainId b) of
        None \<Rightarrow> Inl (ChainNotConfigured (receivingChainId b))
      | Some provider \<Rightarrow>
      if \<not> truthy (bidSignature transferParams)
      then Inl (InvalidBidSignature (transactionId b) (router b))
      else
     (case callToCheck provider b of
        Some e \<Rightarrow> Inl e
      | None \<Rightarrow>
          Inr (sendingChainId b,
               \<lparr>pp_txData = txDataOf env b,
                pp_encryptedCallData = encryptedCallData b,
                pp_bidSignature = the (bidSignature transferParams),
                pp_encodedBid = encodedBid,
                pp_amount = amount b,
                pp_expiry = expiry b\<rparr>)))))"

definition prepareTransfer :: "Env \<Rightarrow> AuctionResponse \<Rightarrow> sdk_error + TransactionRequest" where
  "prepareTransfer env transferParams =
     (case prepareParams env transferParams of
        Inl e \<Rightarrow> Inl e
      | Inr (chainId, params) \<Rightarrow> tmPrepare env chainId params)"

subsection \<open>fulfillTransfer\<close>

text \<open>
  Modelled from the spec: \<^verbatim>\<open>Subgraph.waitFor\<close> is not among the sources. The spec
  has it resolve to the first matching event after registration and reject at the
  deadline; it is the wait of the event library on the events of the given kind, and
  an \<open>Inl\<close> is the message of the error it rejects with.
\<close>

definition subgraph_waitFor ::
  "nat \<Rightarrow> (TransactionFulfilledEvent \<Rightarrow> bool) \<Rightarrow> (nat \<times> TransactionFulfilledEvent) list
     \<Rightarrow> string + TransactionFulfilledEvent" where
  "subgraph_waitFor timeout flt events = evt_waitFor timeout flt events"

text \<open>
  Lines 767 to 862. \<open>events\<close> are the \<^verbatim>\<open>ReceiverTransactionFulfilled\<close> events the
  subgraph emits after the wait is registered.
\<close>

definition fulfillTransfer ::
  "Env \<Rightarrow> TransactionPreparedEvent \<Rightarrow> string \<Rightarrow> string \<Rightarrow> int \<Rightarrow> bool
     \<Rightarrow> (nat \<times> TransactionFulfilledEvent) list \<Rightarrow> sdk_error + FulfillResult" where
  "fulfillTransfer env params fulfillSignature decryptedCallData relayerFee useRelayers events =
     (case validateTransactionPrepareEvent env params of
        Some msg \<Rightarrow>
          Inl (InvalidParamStructure ''fulfillTransfer'' ''TransactionPrepareEventParams'' msg)
      | None \<Rightarrow>
     (let txData = ev_txData params;
          fulfillParams =
            \<lparr>fp_callData = decryptedCallData,
             fp_relayerFee = relayerFee,
             fp_signature = fulfillSignature,
             fp_txData = txData\<rparr>
      in
      if chainConfig env (tx_sendingChainId txData) = None
      then Inl (ChainNotConfigured (tx_sendingChainId txData))
      else if chainConfig env (tx_receivingChainId txData) = None
      then Inl (ChainNotConfigured (tx_receivingChainId txData))
      else if useRelayers then
       (case ensureConnected env of
          Some e \<Rightarrow> Inl e
        | None \<Rightarrow>
       (let responseInbox = generateMessagingInbox env;
            metaTxProm =
              subgraph_waitFor META_TX_TIMEOUT
                (\<lambda>data. tx_transactionId (fe_txData data) = tx_transactionId txData) events;
            request =
              \<lparr>mr_relayerFee = relayerFee,
               mr_to = getTransactionManagerAddress env (tx_receivingChainId txData),
               mr_chainId = tx_receivingChainId txData,
               mr_data = fulfillParams\<rparr>
        in
        case publishMetaTxRequest env request responseInbox of
          Some e \<Rightarrow> Inl (JsError e)
        | None \<Rightarrow>
           (case metaTxProm of
              Inr response \<Rightarrow>
                Inr \<lparr>fulfillRequest = None,
                     metaTxResponse =
                       Some \<lparr>mt_transactionHash = fe_transactionHash response,
                             mt_chainId = tx_receivingChainId (fe_txData response)\<rparr>\<rparr>
            | Inl message \<Rightarrow>
                Inl (if includes_str message ''Evt timeout''
                     then MetaTxTimeout (tx_transactionId txData) META_TX_TIMEOUT
                     else JsError message))))
      else
       (case tmFulfill env (tx_receivingChainId txData) fulfillParams of
          Inl e \<Rightarrow> Inl e
        | Inr request \<Rightarrow> Inr \<lparr>fulfillRequest = Some request, metaTxResponse = None\<rparr>)))"

subsection \<open>Path conditions\<close>

text \<open>
  The steps of \<^verbatim>\<open>getTransferQuote\<close> that come before the expiry check all pass:
  schema, configured chains, synced subgraphs, slippage bounds, and the normalisation
  of every preferred router.
\<close>

definition reachesExpiryCheck :: "Env \<Rightarrow> CrossChainParams \<Rightarrow> bool" where
  "reachesExpiryCheck env params =
     (validateCrossChainParams env params = None \<and>
      chainConfig env (p_sendingChainId params) \<noteq> None \<and>
      chainConfig env (p_receivingChainId params) \<noteq> None \<and>
      synced (getSubgraphSyncStatus env (p_sendingChainId params)) \<and>
      synced (getSubgraphSyncStatus env (p_receivingChainId params)) \<and>
      MIN_SLIPPAGE_TOLERANCE \<le> slippageToleranceOf params \<and>
      slippageToleranceOf params \<le> MAX_SLIPPAGE_TOLERANCE \<and>
      (case preferredRoutersOf env params of Inl e \<Rightarrow> False | Inr rs \<Rightarrow> True))"

text \<open>The same environment with another answer to every \<^verbatim>\<open>getCode\<close> request.\<close>

definition withGetCode :: "(string \<Rightarrow> string + string) \<Rightarrow> Env \<Rightarrow> Env" where
  "withGetCode g env =
     env\<lparr>chainConfig := (\<lambda>c. map_option (\<lambda>p. p\<lparr>getCode := g\<rparr>) (chainConfig env c))\<rparr>"

text \<open>The reasons \<^verbatim>\<open>getTransferQuote\<close> gives for dropping a response.\<close>

definition rejections :: "string set" where
  "rejections =
     {''Invalid router signature on bid'',
      ''Router's liquidity low'',
      ''Error getting router liquidity'',
      ''Invalid bid price: price impact is more than the slippage tolerance''}"

subsection \<open>Sample inputs\<close>

text \<open>
  A configuration with two synced chains, 1337 and 1338, a connected messaging
  service, routers with a liquidity of 1000, and stand-ins for the cryptography: the
  signature \<open>sigA\<close> recovers to \<open>routerA\<close>, the empty signature makes the recovery
  throw, any other one recovers to another address, the address \<open>0xBAD\<close> fails its
  checksum, an amount of \<open>2^256\<close> or more cannot be encoded, and the hash of the
  empty call data is the Keccak-256 of no bytes.
\<close>

definition userA :: string where
  "userA = ''0xA11CE''"

definition routerA :: string where
  "routerA = ''0xB0B''"

definition sigA :: string where
  "sigA = ''0x5161''"

definition hashEmpty :: string where
  "hashEmpty = ''0xc5d2460186f7233c927e7db2dcc703c0e500b653ca82273b7bfad8045d85a470''"

definition env0 :: Env where
  "env0 =
     \<lparr>validateCrossChainParams = (\<lambda>p. None),
      validateAuctionBidParams = (\<lambda>b. None),
      validateTransactionPrepareEvent = (\<lambda>e. None),
      signerAddress = userA,
      chainConfig =
        (\<lambda>c. if c = 1337 \<or> c = 1338 then Some \<lparr>getCode = (\<lambda>a. Inr ''0x'')\<rparr> else None),
      getSyncStatus = (\<lambda>c. Some \<lparr>synced = True, syncedBlock = 10, latestBlock = 10\<rparr>),
      getRandomBytes32 = ''0x7a'',
      getTimestampInSeconds = 1700000000,
      getAddress = (\<lambda>a. if a = ''0xBAD'' then Inl ''bad address checksum'' else Inr a),
      keccak256 = (\<lambda>d. if d = ''0x'' then hashEmpty else ''0x'' @ d),
      encryptCallData = (\<lambda>u d. Inr d),
      isConnected = True,
      connect = None,
      generateMessagingInbox = ''inbox'',
      publishAuctionRequest = (\<lambda>p i. None),
      publishMetaTxRequest = (\<lambda>r i. None),
      recoverAuctionBid =
        (\<lambda>b s. if s = [] then Inl ''invalid signature string''
               else if s = sigA then Inr routerA else Inr ''0xF00''),
      encodeAuctionBid =
        (\<lambda>b. if amount b < 2 ^ 256 then Inr (transactionId b) else Inl ''value out-of-bounds''),
      getRouterLiquidity = (\<lambda>c r a. Inr 1000),
      getTransactionManagerAddress = (\<lambda>c. Some ''0x7777''),
      tmPrepare = (\<lambda>c p. Inr \<lparr>rq_to = ''0x7777'', rq_data = pp_encodedBid p, rq_chainId = c\<rparr>),
      tmFulfill = (\<lambda>c p. Inr \<lparr>rq_to = ''0x7777'', rq_data = fp_signature p, rq_chainId = c\<rparr>)\<rparr>"

text \<open>A quote request for an open auction, every optional field omitted.\<close>

definition params0 :: CrossChainParams where
  "params0 =
     \<lparr>p_callData = None,
      p_sendingChainId = 1337,
      p_sendingAssetId = ''0x5e'',
      p_receivingChainId = 1338,
      p_receivingAssetId = ''0x4e'',
      p_callTo = None,
      p_receivingAddress = userA,
      p_amount = 100,
      p_expiry = None,
      p_transactionId = Some ''0x01'',
      p_slippageTolerance = None,
      p_dryRun = None,
      p_preferredRouters = None,
      p_initiator = None\<rparr>"

definition bid0 :: AuctionBid where
  "bid0 =
     \<lparr>user = userA,
      router = routerA,
      initiator = userA,
      sendingChainId = 1337,
      sendingAssetId = ''0x5e'',
      amount = 100,
      receivingChainId = 1338,
      receivingAssetId = ''0x4e'',
      amountReceived = 100,
      receivingAddress = userA,
      transactionId = ''0x01'',
      expiry = 1700270000,
      callDataHash = hashEmpty,
      callTo = AddressZero,
      encryptedCallData = ''0x'',
      bidExpiry = 1700000300\<rparr>"

definition response :: "int \<Rightarrow> AuctionResponse" where
  "response received =
     \<lparr>bid = bid0\<lparr>amountReceived := received\<rparr>,
      bidSignature = Some sigA,
      gasFeeInReceivingToken = 1\<rparr>"

text \<open>The same response with a signature that does not recover to the router.\<close>

definition forged :: AuctionResponse where
  "forged = (response 100)\<lparr>bidSignature := Some ''0xbad''\<rparr>"

definition posted :: "nat \<Rightarrow> AuctionResponse \<Rightarrow> nat \<times> BusMessage" where
  "posted t d = (t, \<lparr>m_inbox = ''inbox'', m_data = Some d, m_err = None\<rparr>)"

text \<open>The same response without a signature.\<close>

definition unsigned :: AuctionResponse where
  "unsigned = (response 100)\<lparr>bidSignature := None\<rparr>"

text \<open>A response that asks for more than the router's liquidity of 1000.\<close>

definition illiquid :: AuctionResponse where
  "illiquid = response 2000"

text \<open>
  A signed response whose \<^verbatim>\<open>callDataHash\<close> is not the hash of the call data of the
  sample request, and the parameters \<^verbatim>\<open>prepareTransfer\<close> builds from it.
\<close>

definition tampered :: AuctionResponse where
  "tampered =
     \<lparr>bid = bid0\<lparr>callDataHash := ''0xdead''\<rparr>,
      bidSignature = Some sigA,
      gasFeeInReceivingToken = 1\<rparr>"

definition preparedTampered :: PrepareParams where
  "preparedTampered =
     \<lparr>pp_txData = txDataOf env0 (bid tampered),
      pp_encryptedCallData = ''0x'',
      pp_bidSignature = sigA,
      pp_encodedBid = ''0x01'',
      pp_amount = 100,
      pp_expiry = 1700270000\<rparr>"

text \<open>A response that names a call target; the sample providers report no code anywhere.\<close>

definition callsOut :: AuctionResponse where
  "callsOut = (response 100)\<lparr>bid := bid0\<lparr>callTo := ''0xABCD''\<rparr>\<rparr>"

text \<open>
  The prepared event of the sample transfer on the receiving chain, and a fulfilled
  event for the transfer with a given identifier.
\<close>

definition txData0 :: TransactionData where
  "txData0 =
     \<lparr>tx_receivingChainTxManagerAddress = Some ''0x7777'',
      tx_user = userA,
      tx_router = routerA,
      tx_initiator = userA,
      tx_sendingAssetId = ''0x5e'',
      tx_receivingAssetId = ''0x4e'',
      tx_sendingChainFallback = userA,
      tx_callTo = AddressZero,
      tx_receivingAddress = userA,
      tx_sendingChainId = 1337,
      tx_receivingChainId = 1338,
      tx_callDataHash = hashEmpty,
      tx_transactionId = ''0x01'',
      tx_amount = 99,
      tx_expiry = 1700180000,
      tx_preparedBlockNumber = 7\<rparr>"

definition prepared0 :: TransactionPreparedEvent where
  "prepared0 =
     \<lparr>ev_txData = txData0,
      ev_encryptedCallData = ''0x'',
      ev_encodedBid = ''0x01'',
      ev_bidSignature = sigA\<rparr>"

definition fulfilled :: "string \<Rightarrow> TransactionFulfilledEvent" where
  "fulfilled tid =
     \<lparr>fe_txData = txData0\<lparr>tx_transactionId := tid\<rparr>,
      fe_signature = ''0x51'',
      fe_relayerFee = 0,
      fe_callData = ''0x'',
      fe_transactionHash = ''0xf00d''\<rparr>"

text \<open>What the sample request hands to the auction.\<close>

definition ctx0 :: QuoteCtx where
  "ctx0 = quoteCtx env0 params0 [] (auctionPayload env0 params0 ''0x'')"

section \<open>Verification\<close>

subsection \<open>The sample inputs, field by field\<close>

lemma env0_simps:
  "validateCrossChainParams env0 = (\<lambda>p. None)"
  "validateAuctionBidParams env0 = (\<lambda>b. None)"
  "validateTransactionPrepareEvent env0 = (\<lambda>e. None)"
  "signerAddress env0 = userA"
  "chainConfig env0 =
     (\<lambda>c. if c = 1337 \<or> c = 1338 then Some \<lparr>getCode = (\<lambda>a. Inr ''0x'')\<rparr> else None)"
  "getSyncStatus env0 = (\<lambda>c. Some \<lparr>synced = True, syncedBlock = 10, latestBlock = 10\<rparr>)"
  "getRandomBytes32 env0 = ''0x7a''"
  "getTimestampInSeconds env0 = 1700000000"
  "getAddress env0 = (\<lambda>a. if a = ''0xBAD'' then Inl ''bad address checksum'' else Inr a)"
  "keccak256 env0 = (\<lambda>d. if d = ''0x'' then hashEmpty else ''0x'' @ d)"
  "encryptCallData env0 = (\<lambda>u d. Inr d)"
  "isConnected env0 = True"
  "connect env0 = None"
  "generateMessagingInbox env0 = ''inbox''"
  "publishAuctionRequest env0 = (\<lambda>p i. None)"
  "publishMetaTxRequest env0 = (\<lambda>r i. None)"
  "recoverAuctionBid env0 =
     (\<lambda>b s. if s = [] then Inl ''invalid signature string''
            else if s = sigA then Inr routerA else Inr ''0xF00'')"
  "encodeAuctionBid env0 =
     (\<lambda>b. if amount b < 2 ^ 256 then Inr (transactionId b) else Inl ''value out-of-bounds'')"
  "getRouterLiquidity env0 = (\<lambda>c r a. Inr 1000)"
  "getTransactionManagerAddress env0 = (\<lambda>c. Some ''0x7777'')"
  "tmPrepare env0 =
     (\<lambda>c p. Inr \<lparr>rq_to = ''0x7777'', rq_data = pp_encodedBid p, rq_chainId = c\<rparr>)"
  "tmFulfill env0 =
     (\<lambda>c p. Inr \<lparr>rq_to = ''0x7777'', rq_data = fp_signature p, rq_chainId = c\<rparr>)"
  by (simp_all add: env0_def)

lemma params0_simps:
  "p_callData params0 = None"
  "p_sendingChainId params0 = 1337"
  "p_sendingAssetId params0 = ''0x5e''"
  "p_receivingChainId params0 = 1338"
  "p_receivingAssetId params0 = ''0x4e''"
  "p_callTo params0 = None"
  "p_receivingAddress params0 = userA"
  "p_amount params0 = 100"
  "p_expiry params0 = None"
  "p_transactionId params0 = Some ''0x01''"
  "p_slippageTolerance params0 = None"
  "p_dryRun params0 = None"
  "p_preferredRouters params0 = None"
  "p_initiator params0 = None"
  by (simp_all add: params0_def)

lemma slippage_constants:
  "MIN_SLIPPAGE_TOLERANCE = 1 / 100"
  "MAX_SLIPPAGE_TOLERANCE = 15"
  "DEFAULT_SLIPPAGE_TOLERANCE = 1 / 10"
  by (simp_all add: MIN_SLIPPAGE_TOLERANCE_def MAX_SLIPPAGE_TOLERANCE_def
      DEFAULT_SLIPPAGE_TOLERANCE_def)

subsection \<open>The expiry window\<close>

lemma expiry_constants:
  "getMinExpiryBuffer = 176400"
  "getMaxExpiryBuffer = 345600"
  "getExpiry now = now + 270000"
  by (simp_all add: getMinExpiryBuffer_def getMaxExpiryBuffer_def getExpiry_def
      daysToSeconds_def hoursToSeconds_def)

lemma auction_not_InvalidExpiry: "auction env ctx msgs \<noteq> Inl (InvalidExpiry a b c d)"
  by (simp add: auction_def split: sum.splits)

lemma preferredRoutersOf_not_InvalidExpiry:
  "preferredRoutersOf env params \<noteq> Inl (InvalidExpiry a b c d)"
  by (simp add: preferredRoutersOf_def split: sum.splits)

lemma quoteChecks_InvalidExpiry_D:
  assumes "quoteChecks env params = Inl (InvalidExpiry a b c d)"
  shows "reachesExpiryCheck env params \<and>
     (expiryOf env params - getTimestampInSeconds env < getMinExpiryBuffer \<or>
      expiryOf env params - getTimestampInSeconds env > getMaxExpiryBuffer)"
proof (cases "preferredRoutersOf env params")
  case (Inl e)
  with assms preferredRoutersOf_not_InvalidExpiry [of env params a b c d] show ?thesis
    by (simp add: quoteChecks_def Let_def split: option.splits if_splits)
next
  case (Inr rs)
  with assms show ?thesis
    by (simp add: quoteChecks_def reachesExpiryCheck_def Let_def
        split: option.splits if_splits)
qed


lemma preAuction_InvalidExpiry:
  "preAuction env params = Inl (InvalidExpiry a b c d) \<longleftrightarrow>
   quoteChecks env params = Inl (InvalidExpiry a b c d)"
  by (simp add: preAuction_def encryptedCallDataOf_def ensureConnected_def Let_def
      split: option.split sum.split)

lemma getTransferQuote_InvalidExpiry:
  "getTransferQuote env params msgs = Inl (InvalidExpiry a b c d) \<longleftrightarrow>
   quoteChecks env params = Inl (InvalidExpiry a b c d)"
  by (simp add: getTransferQuote_def preAuction_InvalidExpiry [symmetric]
      auction_not_InvalidExpiry split: sum.split)





text \<open>
  C10. When the expiry is omitted it defaults to the current timestamp plus 3 days and
  3 hours, which lies strictly between the two ends of the accepted window, so that
  \<^verbatim>\<open>getTransferQuote\<close> never raises \<open>InvalidExpiry\<close>.
\<close>

theorem default_expiry:
  assumes "p_expiry params = None"
  shows "expiryOf env params = getTimestampInSeconds env + (3 * 86400 + 3 * 3600) \<and>
         getMinExpiryBuffer < expiryOf env params - getTimestampInSeconds env \<and>
         expiryOf env params - getTimestampInSeconds env < getMaxExpiryBuffer \<and>
         (\<forall>a b c d. getTransferQuote env params msgs \<noteq> Inl (InvalidExpiry a b c d))"
proof -
  have e: "expiryOf env params = getTimestampInSeconds env + 270000"
    using assms by (simp add: expiryOf_def expiry_constants)
  have "quoteChecks env params \<noteq> Inl (InvalidExpiry a b c d)" for a b c d
    using quoteChecks_InvalidExpiry_D [of env params a b c d] e
    by (auto simp: expiry_constants)
  then show ?thesis
    using e by (simp add: getTransferQuote_InvalidExpiry expiry_constants)
qed

theorem default_expiry_witness:
  "p_expiry params0 = None \<and>
   expiryOf env0 params0 = 1700270000 \<and>
   (\<forall>a b c d. getTransferQuote env0 params0 [] \<noteq> Inl (InvalidExpiry a b c d))"
  using default_expiry [of params0 env0 "[]"]
  by (simp add: params0_simps env0_simps)

subsection \<open>Ranking and validation\<close>

lemma set_insert_cmp: "set (insert_cmp cmp x ys) = insert x (set ys)"
  by (induction ys) auto

lemma set_foldl_insert_cmp:
  "set (foldl (\<lambda>acc x. insert_cmp cmp x acc) acc xs) = set acc \<union> set xs"
  by (induction xs arbitrary: acc) (auto simp: set_insert_cmp)

lemma set_sort_cmp: "set (sort_cmp cmp xs) = set xs"
  by (simp add: sort_cmp_def set_foldl_insert_cmp)

lemma hd_sort_cmp_in:
  assumes "xs \<noteq> []"
  shows "hd (sort_cmp cmp xs) \<in> set xs"
proof -
  have "sort_cmp cmp xs \<noteq> []"
    using assms set_sort_cmp [of cmp xs] by auto
  then have "hd (sort_cmp cmp xs) \<in> set (sort_cmp cmp xs)"
    by (rule hd_in_set)
  then show ?thesis
    by (simp add: set_sort_cmp)
qed

lemma sorted_insert_cmp:
  assumes "sorted (map (\<lambda>d. amountReceived (bid d)) ys)"
  shows "sorted (map (\<lambda>d. amountReceived (bid d)) (insert_cmp compareBids x ys))"
  using assms
  by (induction ys) (auto simp: compareBids_def set_insert_cmp)

lemma sorted_foldl_insert_cmp:
  assumes "sorted (map (\<lambda>d. amountReceived (bid d)) acc)"
  shows "sorted (map (\<lambda>d. amountReceived (bid d))
           (foldl (\<lambda>acc x. insert_cmp compareBids x acc) acc xs))"
  using assms
  by (induction xs arbitrary: acc) (simp_all add: sorted_insert_cmp)

lemma sorted_sort_cmp: "sorted (map (\<lambda>d. amountReceived (bid d)) (sort_cmp compareBids xs))"
  by (simp add: sort_cmp_def sorted_foldl_insert_cmp)

lemma hd_sorted_least:
  assumes "sorted (map f ys)" "y \<in> set ys"
  shows "f (hd ys) \<le> (f y :: int)"
  using assms by (cases ys) auto

lemma chosen_least:
  assumes "d \<in> set valid"
  shows "amountReceived (bid (hd (sort_cmp compareBids valid))) \<le> amountReceived (bid d)"
  using hd_sorted_least [OF sorted_sort_cmp, of d valid] assms
  by (simp add: set_sort_cmp)

lemma allOrFirst_Inr:
  assumes "allOrFirst rs = Inr ys"
  shows "rs = map Inr ys"
  using assms
proof (induction rs arbitrary: ys)
  case Nil
  then show ?case by simp
next
  case (Cons r rs)
  then show ?case
    by (cases r) (auto split: sum.splits)
qed

lemma allOrFirst_map_Inr: "allOrFirst (map Inr ys) = Inr ys"
  by (induction ys) simp_all

lemma judgeBid_Inr:
  assumes "judgeBid env ctx signer d = Inr d'"
  shows "d' = d"
    and "signer = router (bid d)"
    and "\<exists>liq. getRouterLiquidity env (q_receivingChainId ctx) (router (bid d))
                 (q_receivingAssetId ctx) = Inr liq \<and>
               amountReceived (bid d) \<le> liq"
    and "lowerBoundOf (q_slippageTolerance ctx) d \<le> amountReceived (bid d)"
  using assms
  by (auto simp: judgeBid_def split: if_splits sum.splits)

lemma validateBid_Inr:
  assumes "validateBid env ctx d = Inr (Inr d')"
  shows "d' = d"
    and "recoverAuctionBid env (bid d) (case bidSignature d of None \<Rightarrow> [] | Some s \<Rightarrow> s) =
         Inr (router (bid d))"
    and "\<exists>liq. getRouterLiquidity env (q_receivingChainId ctx) (router (bid d))
                 (q_receivingAssetId ctx) = Inr liq \<and>
               amountReceived (bid d) \<le> liq"
    and "lowerBoundOf (q_slippageTolerance ctx) d \<le> amountReceived (bid d)"
proof -
  from assms obtain signer where
    s: "recoverAuctionBid env (bid d) (case bidSignature d of None \<Rightarrow> [] | Some s \<Rightarrow> s) =
        Inr signer"
    and j: "judgeBid env ctx signer d = Inr d'"
    by (auto simp: validateBid_def split: sum.splits)
  from judgeBid_Inr [OF j] s
  show "d' = d"
    and "recoverAuctionBid env (bid d) (case bidSignature d of None \<Rightarrow> [] | Some s \<Rightarrow> s) =
         Inr (router (bid d))"
    and "\<exists>liq. getRouterLiquidity env (q_receivingChainId ctx) (router (bid d))
                 (q_receivingAssetId ctx) = Inr liq \<and>
               amountReceived (bid d) \<le> liq"
    and "lowerBoundOf (q_slippageTolerance ctx) d \<le> amountReceived (bid d)"
    by simp_all
qed

lemma validOf_map_Inr:
  assumes "\<And>d d'. d \<in> set bids \<Longrightarrow> f d = Inr (Inr d') \<Longrightarrow> d' = d"
  shows "map f bids = map Inr js \<Longrightarrow> validOf js = filter (\<lambda>d. f d = Inr (Inr d)) bids"
  using assms
proof (induction bids arbitrary: js)
  case Nil
  then show ?case by simp
next
  case (Cons d bids)
  from Cons.prems(1) obtain j js' where js: "js = j # js'" and fd: "f d = Inr j"
    and rest: "map f bids = map Inr js'"
    by (cases js) auto
  have ih: "validOf js' = filter (\<lambda>d. f d = Inr (Inr d)) bids"
    using Cons.IH [OF rest] Cons.prems(2) by simp
  show ?case
  proof (cases j)
    case (Inl msg)
    with js fd ih show ?thesis by simp
  next
    case (Inr d')
    with fd Cons.prems(2) [of d d'] have "d' = d" by simp
    with Inr js fd ih show ?thesis by simp
  qed
qed

lemma validOf_validateBid:
  assumes "allOrFirst (map (validateBid env ctx) bids) = Inr filtered"
  shows "validOf filtered = filter (\<lambda>d. validateBid env ctx d = Inr (Inr d)) bids"
  using allOrFirst_Inr [OF assms] validateBid_Inr(1)
  by (intro validOf_map_Inr) auto

lemma auctionBody_open:
  assumes "\<not> q_dryRun ctx" "q_preferredRouters ctx = []"
  shows "auctionBody env ctx msgs =
     (let bids = collected (q_inbox ctx) msgs
      in if bids = [] then Inl (NoBids AUCTION_TIMEOUT (q_transactionId ctx))
         else
           case allOrFirst (map (validateBid env ctx) bids) of
             Inl e \<Rightarrow> Inl e
           | Inr filtered \<Rightarrow>
               if validOf filtered = []
               then Inl (NoValidBids (q_transactionId ctx) (join_comma (invalidOf filtered))
                           bids)
               else Inr (hd (sort_cmp compareBids (validOf filtered))))"
  using assms by (simp add: auctionBody_def collectBids_def Let_def split: sum.split)

lemma preAuction_Inr:
  assumes "preAuction env params = Inr ctx"
  shows "\<exists>rs payload. ctx = quoteCtx env params rs payload \<and>
           quoteChecks env params = Inr rs \<and>
           pl_callDataHash payload = keccak256 env (callDataOf params)"
  using assms
  by (auto simp: preAuction_def Let_def auctionPayload_def split: option.splits sum.splits)

lemma quoteChecks_Inr:
  assumes "quoteChecks env params = Inr rs"
  shows "MIN_SLIPPAGE_TOLERANCE \<le> slippageToleranceOf params"
    and "slippageToleranceOf params \<le> MAX_SLIPPAGE_TOLERANCE"
    and "preferredRoutersOf env params = Inr rs"
  using assms
  by (simp_all add: quoteChecks_def Let_def split: option.splits if_splits sum.splits)

lemma auctionBody_Inr_not_dry:
  assumes "auctionBody env ctx msgs = Inr r" "\<not> q_dryRun ctx"
  shows "validateBid env ctx r = Inr (Inr r)"
proof -
  from assms obtain bids filtered where
    all: "allOrFirst (map (validateBid env ctx) bids) = Inr filtered"
    and r: "r = hd (sort_cmp compareBids (validOf filtered))"
    and ne: "validOf filtered \<noteq> []"
    by (auto simp: auctionBody_def Let_def split: sum.splits if_splits)
  from hd_sort_cmp_in [OF ne, of compareBids] r
  have "r \<in> set (validOf filtered)" by simp
  then show ?thesis by (simp add: validOf_validateBid [OF all])
qed

subsection \<open>The slippage check\<close>

lemma floor_numeral_div: "\<lfloor>numeral a / numeral b :: rat\<rfloor> = numeral a div numeral b"
  using floor_divide_of_int_eq [of "numeral a" "numeral b", where ?'a = rat] by simp

lemma lowerBound_le:
  assumes "0 \<le> amountReceived (bid d)" "0 \<le> gasFeeInReceivingToken d"
    "MIN_SLIPPAGE_TOLERANCE \<le> s" "s \<le> MAX_SLIPPAGE_TOLERANCE"
  shows "lowerBoundOf s d \<le> amountReceived (bid d)"
proof -
  let ?x = "amountReceived (bid d) - gasFeeInReceivingToken d"
  let ?r = "1 - s / 100"
  have r: "0 \<le> ?r" "?r \<le> 1"
    using assms(3,4) by (simp_all add: MIN_SLIPPAGE_TOLERANCE_def MAX_SLIPPAGE_TOLERANCE_def)
  have "of_int ?x * ?r \<le> (of_int (amountReceived (bid d)) :: rat)"
  proof (cases "0 \<le> ?x")
    case True
    then have "of_int ?x * ?r \<le> (of_int ?x :: rat) * 1"
      using r by (intro mult_left_mono) simp_all
    also have "\<dots> \<le> of_int (amountReceived (bid d))"
      using assms(2) by simp
    finally show ?thesis .
  next
    case False
    then have "(of_int ?x :: rat) * ?r \<le> 0"
      using r by (simp add: mult_le_0_iff)
    also have "\<dots> \<le> of_int (amountReceived (bid d))"
      using assms(1) by simp
    finally show ?thesis .
  qed
  then have "\<lfloor>of_int ?x * ?r\<rfloor> \<le> \<lfloor>(of_int (amountReceived (bid d)) :: rat)\<rfloor>"
    by (rule floor_mono)
  then show ?thesis
    by (simp add: lowerBoundOf_def integerPortion_def calculateExchangeAmount_def Let_def)
qed

lemma judgeBid_price:
  assumes "judgeBid env ctx signer d =
           Inl ''Invalid bid price: price impact is more than the slippage tolerance''"
  shows "amountReceived (bid d) < lowerBoundOf (q_slippageTolerance ctx) d"
  using assms by (simp add: judgeBid_def split: if_splits sum.splits)

lemma validateBid_price:
  assumes "validateBid env ctx d =
           Inr (Inl ''Invalid bid price: price impact is more than the slippage tolerance'')"
  shows "amountReceived (bid d) < lowerBoundOf (q_slippageTolerance ctx) d"
  using assms judgeBid_price [of env ctx _ d]
  by (auto simp: validateBid_def split: sum.splits)

text \<open>
  C4. For a bid whose \<^verbatim>\<open>amountReceived\<close> and \<^verbatim>\<open>gasFeeInReceivingToken\<close> are not
  negative and a slippage tolerance between 0.01 and 15, the lower bound
  \<open>floor((amountReceived - gasFeeInReceivingToken) \<times> (1 - slippageTolerance/100))\<close>
  never exceeds \<^verbatim>\<open>amountReceived\<close>, so the validation never answers
  "Invalid bid price", whatever the signer of the bid.
\<close>

theorem slippage_gate_unreachable:
  assumes "0 \<le> amountReceived (bid d)"
    and "0 \<le> gasFeeInReceivingToken d"
    and "MIN_SLIPPAGE_TOLERANCE \<le> q_slippageTolerance ctx"
    and "q_slippageTolerance ctx \<le> MAX_SLIPPAGE_TOLERANCE"
  shows "lowerBoundOf (q_slippageTolerance ctx) d \<le> amountReceived (bid d) \<and>
         validateBid env ctx d \<noteq>
           Inr (Inl ''Invalid bid price: price impact is more than the slippage tolerance'') \<and>
         (\<forall>signer. judgeBid env ctx signer d \<noteq>
           Inl ''Invalid bid price: price impact is more than the slippage tolerance'')"
  using lowerBound_le [OF assms] validateBid_price [of env ctx d]
    judgeBid_price [of env ctx _ d]
  by auto

lemma response_simps:
  "amountReceived (bid (response n)) = n"
  "router (bid (response n)) = routerA"
  "bidSignature (response n) = Some sigA"
  "gasFeeInReceivingToken (response n) = 1"
  by (simp_all add: response_def bid0_def)

lemma ctx0_simps:
  "q_transactionId ctx0 = ''0x01''"
  "q_receivingChainId ctx0 = 1338"
  "q_receivingAssetId ctx0 = ''0x4e''"
  "q_slippageTolerance ctx0 = 1 / 10"
  "q_dryRun ctx0 = False"
  "q_preferredRouters ctx0 = []"
  "q_inbox ctx0 = ''inbox''"
  by (simp_all add: ctx0_def quoteCtx_def transactionIdOf_def slippageToleranceOf_def
      dryRunOf_def params0_simps env0_simps slippage_constants)

lemma preAuction_sample: "preAuction env0 params0 = Inr ctx0"
  by (simp add: preAuction_def quoteChecks_def encryptedCallDataOf_def ensureConnected_def
      callDataOf_def slippageToleranceOf_def expiryOf_def getSubgraphSyncStatus_def
      preferredRoutersOf_def ctx0_def env0_simps params0_simps slippage_constants
      expiry_constants Let_def)

theorem slippage_gate_unreachable_witness:
  "0 \<le> amountReceived (bid (response 40)) \<and>
   0 \<le> gasFeeInReceivingToken (response 40) \<and>
   MIN_SLIPPAGE_TOLERANCE \<le> q_slippageTolerance ctx0 \<and>
   q_slippageTolerance ctx0 \<le> MAX_SLIPPAGE_TOLERANCE \<and>
   lowerBoundOf (q_slippageTolerance ctx0) (response 40) \<le> amountReceived (bid (response 40)) \<and>
   validateBid env0 ctx0 (response 40) \<noteq>
     Inr (Inl ''Invalid bid price: price impact is more than the slippage tolerance'')"
  using slippage_gate_unreachable [of "response 40" ctx0 env0]
  by (simp add: response_simps ctx0_simps slippage_constants)

lemma validateBid_sample:
  assumes "0 \<le> n" "n \<le> 1000"
  shows "validateBid env0 ctx0 (response n) = Inr (Inr (response n))"
proof -
  have "lowerBoundOf (q_slippageTolerance ctx0) (response n) \<le>
        amountReceived (bid (response n))"
    using assms
    by (intro lowerBound_le) (simp_all add: response_simps ctx0_simps slippage_constants)
  then show ?thesis
    using assms
    by (simp add: validateBid_def judgeBid_def env0_simps response_simps ctx0_simps sigA_def)
qed

lemma collected_sample:
  "collected ''inbox'' [] = []"
  "t < 6000 \<Longrightarrow> collected ''inbox'' (posted t d # msgs) = d # collected ''inbox'' msgs"
  by (simp_all add: collected_def posted_def acceptable_def truthy_def AUCTION_TIMEOUT_def)

lemma lowerBound_40:
  assumes "amountReceived (bid d) = 40" "gasFeeInReceivingToken d = 1"
  shows "lowerBoundOf (1 / 10) d = 38"
  using assms
  by (simp add: lowerBoundOf_def integerPortion_def calculateExchangeAmount_def floor_numeral_div)

text \<open>
  The scenario of C2 on the sample configuration: the only bid, with
  \<^verbatim>\<open>amountReceived\<close> 40 and a gas fee of 1, is returned; its lower bound is 38.
\<close>

theorem slippage_scenario_counterexample:
  "getTransferQuote env0 params0 [posted 1000 (response 40)] = Inr (response 40) \<and>
   lowerBoundOf (1 / 10) (response 40) = 38"
  by (simp add: getTransferQuote_def preAuction_sample auction_def auctionBody_open ctx0_simps
      collected_sample validateBid_sample sort_cmp_def lowerBound_40 response_simps)

subsection \<open>The chosen bid\<close>

text \<open>
  What the ranking does: whenever a quote that is not a dry run returns, no survivor
  has a smaller \<^verbatim>\<open>amountReceived\<close> than the returned response.
\<close>

lemma auctionBody_least:
  assumes "auctionBody env ctx msgs = Inr r"
    and "\<not> q_dryRun ctx"
    and "collectBids env ctx msgs = Inr bids"
    and "d \<in> set bids"
    and "validateBid env ctx d = Inr (Inr d)"
  shows "amountReceived (bid r) \<le> amountReceived (bid d)"
proof -
  from assms(1,2,3) obtain filtered where
    all: "allOrFirst (map (validateBid env ctx) bids) = Inr filtered"
    and r: "r = hd (sort_cmp compareBids (validOf filtered))"
    by (auto simp: auctionBody_def Let_def split: sum.splits if_splits)
  have "d \<in> set (validOf filtered)"
    using assms(4,5) by (simp add: validOf_validateBid [OF all])
  with r show ?thesis
    by (simp add: chosen_least)
qed

text \<open>
  C1. The returned response should be the survivor with the greatest
  \<^verbatim>\<open>amountReceived\<close>. On two survivors with 100 and 101, arriving in this order,
  \<^verbatim>\<open>getTransferQuote\<close> returns the one with 100: the comparator of line 564 sorts
  in ascending order and the head is the smallest.
\<close>

theorem ranking_scenario:
  "getTransferQuote env0 params0 [posted 1000 (response 100), posted 2000 (response 101)] =
     Inr (response 100) \<and>
   allOrFirst (map (validateBid env0 ctx0) [response 100, response 101]) =
     Inr [Inr (response 100), Inr (response 101)] \<and>
   validOf [Inr (response 100), Inr (response 101)] = [response 100, response 101]"
  by (simp add: getTransferQuote_def preAuction_sample auction_def auctionBody_open ctx0_simps
      collected_sample validateBid_sample sort_cmp_def compareBids_def response_simps)

subsection \<open>What the auction is given\<close>

lemma preAuction_quoteCtx:
  assumes "preAuction env params = Inr ctx"
  shows "q_dryRun ctx = dryRunOf params"
    and "preferredRoutersOf env params = Inr (q_preferredRouters ctx)"
    and "q_slippageTolerance ctx = slippageToleranceOf params"
    and "q_inbox ctx = generateMessagingInbox env"
    and "q_transactionId ctx = transactionIdOf env params"
    and "q_receivingChainId ctx = p_receivingChainId params"
    and "q_receivingAssetId ctx = p_receivingAssetId params"
    and "pl_callDataHash (q_payload ctx) = keccak256 env (callDataOf params)"
proof -
  from preAuction_Inr [OF assms] obtain rs payload where
    ctx: "ctx = quoteCtx env params rs payload"
    and checks: "quoteChecks env params = Inr rs"
    and hash: "pl_callDataHash payload = keccak256 env (callDataOf params)"
    by blast
  from ctx hash quoteChecks_Inr(3) [OF checks]
  show "q_dryRun ctx = dryRunOf params"
    and "preferredRoutersOf env params = Inr (q_preferredRouters ctx)"
    and "q_slippageTolerance ctx = slippageToleranceOf params"
    and "q_inbox ctx = generateMessagingInbox env"
    and "q_transactionId ctx = transactionIdOf env params"
    and "q_receivingChainId ctx = p_receivingChainId params"
    and "q_receivingAssetId ctx = p_receivingAssetId params"
    and "pl_callDataHash (q_payload ctx) = keccak256 env (callDataOf params)"
    by (simp_all add: quoteCtx_def)
qed

lemma quote_slippage_in_range:
  assumes "preAuction env params = Inr ctx"
  shows "MIN_SLIPPAGE_TOLERANCE \<le> q_slippageTolerance ctx \<and>
         q_slippageTolerance ctx \<le> MAX_SLIPPAGE_TOLERANCE"
proof -
  from preAuction_Inr [OF assms] obtain rs where "quoteChecks env params = Inr rs"
    by blast
  from quoteChecks_Inr(1,2) [OF this] show ?thesis
    by (simp add: preAuction_quoteCtx [OF assms])
qed

subsection \<open>The slippage scenario\<close>

text \<open>
  C2, amended. In an open auction that collects exactly one bid with
  \<^verbatim>\<open>amountReceived\<close> 40 and \<^verbatim>\<open>gasFeeInReceivingToken\<close> 1, under the slippage
  tolerance 0.10 and with the signature and liquidity checks passing, the lower bound
  is \<open>floor(39 \<times> 0.999) = 38\<close>, the slippage check accepts the bid and
  \<^verbatim>\<open>getTransferQuote\<close> returns it.
\<close>

theorem slippage_scenario:
  assumes pre: "preAuction env params = Inr ctx"
    and open_auction: "\<not> dryRunOf params" "preferredRoutersOf env params = Inr []"
    and slippage: "slippageToleranceOf params = 1 / 10"
    and one_bid: "collected (generateMessagingInbox env) msgs = [d]"
    and amounts: "amountReceived (bid d) = 40" "gasFeeInReceivingToken d = 1"
    and signature: "recoverAuctionBid env (bid d)
                      (case bidSignature d of None \<Rightarrow> [] | Some s \<Rightarrow> s) =
                    Inr (router (bid d))"
    and liquidity: "getRouterLiquidity env (p_receivingChainId params) (router (bid d))
                      (p_receivingAssetId params) = Inr liq" "40 \<le> liq"
  shows "lowerBoundOf (slippageToleranceOf params) d = 38 \<and>
         validateBid env ctx d = Inr (Inr d) \<and>
         getTransferQuote env params msgs = Inr d"
proof -
  note ctx = preAuction_quoteCtx [OF pre]
  have routers: "q_preferredRouters ctx = []"
    using ctx(2) open_auction(2) by simp
  have lb: "lowerBoundOf (slippageToleranceOf params) d = 38"
    using amounts by (simp add: slippage lowerBound_40)
  have v: "validateBid env ctx d = Inr (Inr d)"
    using signature liquidity amounts lb
    by (simp add: validateBid_def judgeBid_def ctx)
  have "auctionBody env ctx msgs = Inr d"
    using open_auction(1) routers one_bid v
    by (simp add: auctionBody_open ctx sort_cmp_def)
  then have "getTransferQuote env params msgs = Inr d"
    by (simp add: getTransferQuote_def pre auction_def)
  with lb v show ?thesis by simp
qed

lemma sample_open:
  "\<not> dryRunOf params0"
  "preferredRoutersOf env0 params0 = Inr []"
  "generateMessagingInbox env0 = ''inbox''"
  "transactionIdOf env0 params0 = ''0x01''"
  by (simp_all add: dryRunOf_def preferredRoutersOf_def transactionIdOf_def params0_simps
      env0_simps)

theorem slippage_scenario_witness:
  "preAuction env0 params0 = Inr ctx0 \<and>
   \<not> dryRunOf params0 \<and> preferredRoutersOf env0 params0 = Inr [] \<and>
   slippageToleranceOf params0 = 1 / 10 \<and>
   collected (generateMessagingInbox env0) [posted 1000 (response 40)] = [response 40] \<and>
   lowerBoundOf (slippageToleranceOf params0) (response 40) = 38 \<and>
   validateBid env0 ctx0 (response 40) = Inr (Inr (response 40)) \<and>
   getTransferQuote env0 params0 [posted 1000 (response 40)] = Inr (response 40)"
  using slippage_scenario
      [of env0 params0 ctx0 "[posted 1000 (response 40)]" "response 40" 1000]
  by (simp add: preAuction_sample sample_open slippageToleranceOf_def
      params0_simps env0_simps slippage_constants collected_sample response_simps sigA_def)

subsection \<open>The signature of the returned bid\<close>

text \<open>
  C3, amended. A call of \<^verbatim>\<open>getTransferQuote\<close> that is not a dry run and returns
  successfully, in an open auction or with preferred routers, returns a response whose
  signature recovers to the router of its bid.
\<close>

theorem returned_bid_signed:
  assumes "\<not> dryRunOf params"
    and "getTransferQuote env params msgs = Inr r"
  shows "recoverAuctionBid env (bid r) (case bidSignature r of None \<Rightarrow> [] | Some s \<Rightarrow> s) =
         Inr (router (bid r))"
proof -
  from assms(2) obtain ctx where pre: "preAuction env params = Inr ctx"
    and "auction env ctx msgs = Inr r"
    by (auto simp: getTransferQuote_def split: sum.splits)
  then have body: "auctionBody env ctx msgs = Inr r"
    by (simp add: auction_def split: sum.splits)
  have "\<not> q_dryRun ctx"
    using assms(1) by (simp add: preAuction_quoteCtx [OF pre])
  from auctionBody_Inr_not_dry [OF body this]
  show ?thesis by (rule validateBid_Inr(2))
qed

lemma validateBid_forged:
  "validateBid env0 ctx0 forged = Inr (Inl ''Invalid router signature on bid'')"
  by (simp add: validateBid_def judgeBid_def forged_def response_simps env0_simps sigA_def
      routerA_def)

theorem returned_bid_signed_witness:
  "\<not> dryRunOf params0 \<and>
   getTransferQuote env0 params0 [posted 1000 forged, posted 2000 (response 100)] =
     Inr (response 100) \<and>
   recoverAuctionBid env0 (bid (response 100))
     (case bidSignature (response 100) of None \<Rightarrow> [] | Some s \<Rightarrow> s) =
     Inr (router (bid (response 100)))"
  using returned_bid_signed
      [of params0 env0 "[posted 1000 forged, posted 2000 (response 100)]" "response 100"]
  by (simp add: dryRunOf_def params0_simps getTransferQuote_def preAuction_sample auction_def
      auctionBody_open ctx0_simps collected_sample validateBid_sample validateBid_forged
      sort_cmp_def)

lemma preAuction_dry_sample:
  "preAuction env0 (params0\<lparr>p_dryRun := Some True\<rparr>) =
     Inr (ctx0\<lparr>q_dryRun := True, q_payload := (q_payload ctx0)\<lparr>pl_dryRun := True\<rparr>\<rparr>)"
  by (simp add: preAuction_def quoteChecks_def encryptedCallDataOf_def ensureConnected_def
      callDataOf_def slippageToleranceOf_def expiryOf_def getSubgraphSyncStatus_def
      ctx0_def env0_simps params0_simps slippage_constants expiry_constants Let_def
      quoteCtx_def auctionPayload_def dryRunOf_def transactionIdOf_def preferredRoutersOf_def
      callToOf_def)

text \<open>
  A dry run returns the first acceptable response as it is: here one whose signature
  does not recover to its router.
\<close>

theorem dry_run_counterexample:
  "getTransferQuote env0 (params0\<lparr>p_dryRun := Some True\<rparr>) [posted 1000 forged] =
     Inr forged \<and>
   bidSignature forged = Some ''0xbad'' \<and>
   recoverAuctionBid env0 (bid forged) ''0xbad'' = Inr ''0xF00'' \<and>
   router (bid forged) \<noteq> ''0xF00''"
  by (simp add: getTransferQuote_def preAuction_dry_sample auction_def auctionBody_def
      collectBids_def evt_waitFor_def posted_def acceptable_def truthy_def AUCTION_TIMEOUT_def
      ctx0_simps forged_def response_simps env0_simps sigA_def routerA_def)

subsection \<open>Failures of single bids\<close>

lemma judgeBid_cases:
  "judgeBid env ctx signer d = Inr d \<or>
   (\<exists>msg \<in> rejections. judgeBid env ctx signer d = Inl msg)"
  by (simp add: judgeBid_def rejections_def split: sum.split)

lemma validateBid_cases:
  "(\<exists>e. validateBid env ctx d = Inl (JsError e)) \<or>
   validateBid env ctx d = Inr (Inr d) \<or>
   (\<exists>msg \<in> rejections. validateBid env ctx d = Inr (Inl msg))"
  using judgeBid_cases [of env ctx _ d]
  by (auto simp: validateBid_def split: sum.split)

lemma validateBid_rpc_error:
  assumes "recoverAuctionBid env (bid d) (case bidSignature d of None \<Rightarrow> [] | Some s \<Rightarrow> s) =
           Inr (router (bid d))"
    and "getRouterLiquidity env (q_receivingChainId ctx) (router (bid d))
           (q_receivingAssetId ctx) = Inl e"
  shows "validateBid env ctx d = Inr (Inl ''Error getting router liquidity'')"
  using assms by (simp add: validateBid_def judgeBid_def)

lemma invalidOf_rejections:
  assumes "map (validateBid env ctx) bids = map Inr js"
  shows "set (invalidOf js) \<subseteq> rejections"
  using assms
proof (induction bids arbitrary: js)
  case Nil
  then show ?case by simp
next
  case (Cons d bids)
  then obtain j js' where js: "js = j # js'" and fd: "validateBid env ctx d = Inr j"
    and rest: "map (validateBid env ctx) bids = map Inr js'"
    by (cases js) auto
  from Cons.IH [OF rest] validateBid_cases [of env ctx d] js fd show ?case
    by (cases j) auto
qed

text \<open>
  As long as \<^verbatim>\<open>recoverAuctionBid\<close> returns for every collected response, each
  response is judged on its own: the survivors are the responses that pass, the others
  give one of the four reasons, \<open>NoValidBids\<close> with the joined reasons is raised
  exactly when responses were collected and none survives (and is handed to the caller
  inside \<open>UnknownAuctionError\<close>), and a survivor is returned as soon as there is one.
\<close>

lemma open_auction_recovered:
  assumes pre: "preAuction env params = Inr ctx"
    and open_auction: "\<not> dryRunOf params" "preferredRoutersOf env params = Inr []"
    and bids: "bids = collected (generateMessagingInbox env) msgs"
    and recovered: "allOrFirst (map (validateBid env ctx) bids) = Inr filtered"
  shows "validOf filtered = filter (\<lambda>d. validateBid env ctx d = Inr (Inr d)) bids"
    and "set (invalidOf filtered) \<subseteq> rejections"
    and "(\<exists>t reasons rs. auctionBody env ctx msgs = Inl (NoValidBids t reasons rs)) \<longleftrightarrow>
           bids \<noteq> [] \<and> validOf filtered = []"
    and "(\<exists>t t' reasons rs. getTransferQuote env params msgs =
            Inl (UnknownAuctionError t (NoValidBids t' reasons rs))) \<longleftrightarrow>
           bids \<noteq> [] \<and> validOf filtered = []"
    and "bids \<noteq> [] \<and> validOf filtered = [] \<longrightarrow>
           getTransferQuote env params msgs =
             Inl (UnknownAuctionError (transactionIdOf env params)
                    (NoValidBids (transactionIdOf env params)
                       (join_comma (invalidOf filtered)) bids))"
    and "validOf filtered \<noteq> [] \<longrightarrow>
           (\<exists>r \<in> set (validOf filtered). getTransferQuote env params msgs = Inr r)"
proof -
  note ctx = preAuction_quoteCtx [OF pre]
  have routers: "q_preferredRouters ctx = []"
    using ctx(2) open_auction(2) by simp
  have body: "auctionBody env ctx msgs =
     (if bids = [] then Inl (NoBids AUCTION_TIMEOUT (q_transactionId ctx))
      else if validOf filtered = []
      then Inl (NoValidBids (q_transactionId ctx) (join_comma (invalidOf filtered)) bids)
      else Inr (hd (sort_cmp compareBids (validOf filtered))))"
    using open_auction(1) routers bids recovered
    by (simp add: auctionBody_open ctx Let_def)
  have quote: "getTransferQuote env params msgs = auction env ctx msgs"
    by (simp add: getTransferQuote_def pre)
  show "validOf filtered = filter (\<lambda>d. validateBid env ctx d = Inr (Inr d)) bids"
    by (rule validOf_validateBid [OF recovered])
  show "set (invalidOf filtered) \<subseteq> rejections"
    by (rule invalidOf_rejections [OF allOrFirst_Inr [OF recovered]])
  show "(\<exists>t reasons rs. auctionBody env ctx msgs = Inl (NoValidBids t reasons rs)) \<longleftrightarrow>
           bids \<noteq> [] \<and> validOf filtered = []"
    by (simp add: body)
  show "(\<exists>t t' reasons rs. getTransferQuote env params msgs =
            Inl (UnknownAuctionError t (NoValidBids t' reasons rs))) \<longleftrightarrow>
           bids \<noteq> [] \<and> validOf filtered = []"
    by (simp add: quote auction_def body)
  show "bids \<noteq> [] \<and> validOf filtered = [] \<longrightarrow>
           getTransferQuote env params msgs =
             Inl (UnknownAuctionError (transactionIdOf env params)
                    (NoValidBids (transactionIdOf env params)
                       (join_comma (invalidOf filtered)) bids))"
    by (simp add: quote auction_def body ctx)
  show "validOf filtered \<noteq> [] \<longrightarrow>
           (\<exists>r \<in> set (validOf filtered). getTransferQuote env params msgs = Inr r)"
  proof
    assume ne: "validOf filtered \<noteq> []"
    have "filtered \<noteq> []"
      using ne by auto
    then have "bids \<noteq> []"
      using allOrFirst_Inr [OF recovered] by auto
    then have "getTransferQuote env params msgs =
        Inr (hd (sort_cmp compareBids (validOf filtered)))"
      using ne by (simp add: quote auction_def body)
    with hd_sort_cmp_in [OF ne, of compareBids]
    show "\<exists>r \<in> set (validOf filtered). getTransferQuote env params msgs = Inr r"
      by blast
  qed
qed

text \<open>
  When \<^verbatim>\<open>recoverAuctionBid\<close> throws on one of the collected responses, the auction
  ends with the error of the first such response, whatever the other responses are.
\<close>

lemma open_auction_thrown:
  assumes pre: "preAuction env params = Inr ctx"
    and open_auction: "\<not> dryRunOf params" "preferredRoutersOf env params = Inr []"
    and bids: "bids = collected (generateMessagingInbox env) msgs"
    and thrown: "allOrFirst (map (validateBid env ctx) bids) = Inl e"
  shows "getTransferQuote env params msgs =
           Inl (UnknownAuctionError (transactionIdOf env params) e)"
proof -
  note ctx = preAuction_quoteCtx [OF pre]
  have routers: "q_preferredRouters ctx = []"
    using ctx(2) open_auction(2) by simp
  have "bids \<noteq> []"
    using thrown by auto
  then have "auctionBody env ctx msgs = Inl e"
    using open_auction(1) routers bids thrown
    by (simp add: auctionBody_open ctx Let_def)
  then show ?thesis
    by (simp add: getTransferQuote_def pre auction_def ctx)
qed

lemma validateBid_illiquid:
  "validateBid env0 ctx0 illiquid = Inr (Inl ''Router's liquidity low'')"
  by (simp add: validateBid_def judgeBid_def illiquid_def response_simps env0_simps ctx0_simps
      sigA_def)

lemma validateBid_unsigned:
  "validateBid env0 ctx0 unsigned = Inl (JsError ''invalid signature string'')"
  by (simp add: validateBid_def unsigned_def response_def env0_simps)

lemma open_auction_sample:
  "getTransferQuote env0 params0 [posted 1000 forged, posted 2000 illiquid] =
     Inl (UnknownAuctionError ''0x01''
            (NoValidBids ''0x01'' ''Invalid router signature on bid,Router's liquidity low''
               [forged, illiquid]))"
  "getTransferQuote env0 params0
     [posted 1000 forged, posted 2000 (response 100), posted 3000 illiquid] =
     Inr (response 100)"
  by (simp_all add: getTransferQuote_def preAuction_sample auction_def auctionBody_open
      ctx0_simps collected_sample validateBid_sample validateBid_forged validateBid_illiquid
      sort_cmp_def)

text \<open>
  C5. A failure of one bid should remove that bid only and leave the auction running.
  A response without a signature, followed by a response that passes every check:
  line 497 hands the empty signature to \<^verbatim>\<open>recoverAuctionBid\<close> outside any
  \<^verbatim>\<open>try\<close>, the recovery throws, and \<^verbatim>\<open>getTransferQuote\<close> fails with
  \<open>UnknownAuctionError\<close> around that error instead of returning the second response.
\<close>

theorem unsigned_bid_aborts:
  "getTransferQuote env0 params0 [posted 1000 unsigned, posted 2000 (response 100)] =
     Inl (UnknownAuctionError ''0x01'' (JsError ''invalid signature string'')) \<and>
   bidSignature unsigned = None \<and>
   recoverAuctionBid env0 (bid unsigned) [] = Inl ''invalid signature string'' \<and>
   validateBid env0 ctx0 (response 100) = Inr (Inr (response 100)) \<and>
   getTransferQuote env0 params0 [posted 2000 (response 100)] = Inr (response 100)"
proof -
  have "getTransferQuote env0 params0 [posted 1000 unsigned, posted 2000 (response 100)] =
      Inl (UnknownAuctionError ''0x01'' (JsError ''invalid signature string''))"
    by (simp add: getTransferQuote_def preAuction_sample auction_def auctionBody_open
        ctx0_simps collected_sample validateBid_unsigned)
  moreover have "getTransferQuote env0 params0 [posted 2000 (response 100)] =
      Inr (response 100)"
    by (simp add: getTransferQuote_def preAuction_sample auction_def auctionBody_open
        ctx0_simps collected_sample validateBid_sample sort_cmp_def)
  ultimately show ?thesis
    by (simp add: validateBid_sample unsigned_def env0_simps)
qed

subsection \<open>The prepared transaction data\<close>

lemma prepareParams_Inr:
  assumes "prepareParams env tp = Inr (c, p)"
  shows "c = sendingChainId (bid tp) \<and> pp_txData p = txDataOf env (bid tp)"
  using assms
  by (auto simp: prepareParams_def Let_def split: if_splits option.splits sum.splits)

text \<open>
  C6, amended. In every successful \<^verbatim>\<open>prepareTransfer\<close> call the invariant
  transaction data handed to the transaction manager has \<^verbatim>\<open>sendingChainFallback\<close>
  equal to \<^verbatim>\<open>user\<close>, the user of the bid, and its \<^verbatim>\<open>callDataHash\<close> is the
  \<^verbatim>\<open>callDataHash\<close> of the bid. (The hash of the call data of the quote,
  \<open>keccak256(callData ?? "0x")\<close>, goes into the auction request, see
  \<open>payload_callDataHash\<close>; no check compares a bid with it.)
\<close>

theorem prepare_invariant_data:
  assumes "prepareTransfer env tp = Inr request"
  shows "\<exists>p. prepareParams env tp = Inr (sendingChainId (bid tp), p) \<and>
             tmPrepare env (sendingChainId (bid tp)) p = Inr request \<and>
             tx_sendingChainFallback (pp_txData p) = tx_user (pp_txData p) \<and>
             tx_user (pp_txData p) = user (bid tp) \<and>
             tx_callDataHash (pp_txData p) = callDataHash (bid tp)"
proof -
  from assms obtain c p where pp: "prepareParams env tp = Inr (c, p)"
    and tm: "tmPrepare env c p = Inr request"
    by (auto simp: prepareTransfer_def split: sum.splits)
  from prepareParams_Inr [OF pp] pp tm show ?thesis
    by (auto simp: txDataOf_def)
qed

lemma payload_callDataHash:
  assumes "preAuction env params = Inr ctx"
  shows "pl_callDataHash (q_payload ctx) = keccak256 env (callDataOf params)"
  by (rule preAuction_quoteCtx [OF assms])

lemma tampered_simps:
  "validateBid env0 ctx0 tampered = Inr (Inr tampered)"
  "bid tampered = bid0\<lparr>callDataHash := ''0xdead''\<rparr>"
  "bidSignature tampered = Some sigA"
proof -
  have "lowerBoundOf (q_slippageTolerance ctx0) tampered \<le> amountReceived (bid tampered)"
    by (intro lowerBound_le) (simp_all add: tampered_def bid0_def ctx0_simps slippage_constants)
  then show "validateBid env0 ctx0 tampered = Inr (Inr tampered)"
    by (simp add: validateBid_def judgeBid_def env0_simps ctx0_simps tampered_def bid0_def
        routerA_def sigA_def)
qed (simp_all add: tampered_def)

lemma bid0_simps:
  "user bid0 = userA" "router bid0 = routerA" "sendingChainId bid0 = 1337"
  "receivingChainId bid0 = 1338" "callTo bid0 = AddressZero" "transactionId bid0 = ''0x01''"
  "encryptedCallData bid0 = ''0x''" "amount bid0 = 100" "expiry bid0 = 1700270000"
  "callDataHash bid0 = hashEmpty"
  by (simp_all add: bid0_def)

lemma prepareParams_tampered: "prepareParams env0 tampered = Inr (1337, preparedTampered)"
  by (simp add: prepareParams_def getSubgraphSyncStatus_def env0_simps tampered_simps bid0_simps
      truthy_def sigA_def callToCheck_def preparedTampered_def Let_def)

text \<open>
  A quote without call data, answered by a signed bid with another
  \<^verbatim>\<open>callDataHash\<close>: the bid is returned, and \<^verbatim>\<open>prepareTransfer\<close> succeeds with a
  \<^verbatim>\<open>callDataHash\<close> that is not the hash of the call data of the quote.
\<close>

theorem prepare_counterexample:
  "getTransferQuote env0 params0 [posted 1000 tampered] = Inr tampered \<and>
   prepareParams env0 tampered = Inr (1337, preparedTampered) \<and>
   prepareTransfer env0 tampered = Inr \<lparr>rq_to = ''0x7777'', rq_data = ''0x01'', rq_chainId = 1337\<rparr> \<and>
   tx_callDataHash (pp_txData preparedTampered) = ''0xdead'' \<and>
   p_callData params0 = None \<and>
   keccak256 env0 ''0x'' = hashEmpty \<and>
   hashEmpty \<noteq> ''0xdead''"
  by (simp add: getTransferQuote_def preAuction_sample auction_def auctionBody_open ctx0_simps
      collected_sample tampered_simps sort_cmp_def prepareTransfer_def prepareParams_tampered
      env0_simps preparedTampered_def txDataOf_def params0_simps hashEmpty_def)

theorem prepare_invariant_data_witness:
  "prepareTransfer env0 (response 100) =
     Inr \<lparr>rq_to = ''0x7777'', rq_data = ''0x01'', rq_chainId = 1337\<rparr> \<and>
   (\<exists>p. prepareParams env0 (response 100) = Inr (1337, p) \<and>
        tx_sendingChainFallback (pp_txData p) = userA \<and>
        tx_user (pp_txData p) = userA \<and>
        tx_callDataHash (pp_txData p) = hashEmpty)"
proof -
  have "prepareTransfer env0 (response 100) =
     Inr \<lparr>rq_to = ''0x7777'', rq_data = ''0x01'', rq_chainId = 1337\<rparr>"
    by (simp add: prepareTransfer_def prepareParams_def getSubgraphSyncStatus_def env0_simps
        response_def bid0_def truthy_def sigA_def callToCheck_def Let_def)
  from this prepare_invariant_data [OF this] show ?thesis
    by (auto simp: response_def bid0_def)
qed

subsection \<open>The call target\<close>

lemma callToCheck_zero: "callTo b = AddressZero \<Longrightarrow> callToCheck provider b = None"
  by (simp add: callToCheck_def)

lemma withGetCode_simps:
  "chainConfig (withGetCode g env) c = map_option (\<lambda>p. p\<lparr>getCode := g\<rparr>) (chainConfig env c)"
  "getSyncStatus (withGetCode g env) = getSyncStatus env"
  "validateAuctionBidParams (withGetCode g env) = validateAuctionBidParams env"
  "encodeAuctionBid (withGetCode g env) = encodeAuctionBid env"
  "getTransactionManagerAddress (withGetCode g env) = getTransactionManagerAddress env"
  "tmPrepare (withGetCode g env) = tmPrepare env"
  by (simp_all add: withGetCode_def)

lemma txDataOf_withGetCode: "txDataOf (withGetCode g env) b = txDataOf env b"
  by (simp add: txDataOf_def withGetCode_simps)

lemma prepareParams_withGetCode:
  assumes "callTo (bid tp) = AddressZero"
  shows "prepareParams (withGetCode g env) tp = prepareParams env tp"
  using assms
  by (cases "validateAuctionBidParams env (bid tp)";
      cases "encodeAuctionBid env (bid tp)";
      cases "chainConfig env (receivingChainId (bid tp))")
    (simp_all add: prepareParams_def withGetCode_simps getSubgraphSyncStatus_def
      txDataOf_withGetCode callToCheck_zero Let_def)

text \<open>
  A bid that cannot be encoded ends the call at line 662, before the call target is
  looked at.
\<close>

lemma encode_failure_sample:
  "prepareTransfer env0 (callsOut\<lparr>bid := (bid callsOut)\<lparr>amount := 2 ^ 256\<rparr>\<rparr>) =
     Inl (JsError ''value out-of-bounds'')"
  by (simp add: prepareTransfer_def prepareParams_def getSubgraphSyncStatus_def env0_simps
      callsOut_def response_def bid0_def Let_def)

text \<open>
  C8. Once \<^verbatim>\<open>prepareTransfer\<close> has passed its earlier steps (synced subgraphs,
  schema, encoding of the bid, configured chains, a bid signature): if \<^verbatim>\<open>callTo\<close> is
  not the zero address and the provider of the receiving chain reports the code
  \<^verbatim>\<open>""\<close> or \<^verbatim>\<open>"0x"\<close> there, the call raises \<open>InvalidCallTo\<close>; if \<^verbatim>\<open>callTo\<close> is
  the zero address the provider is not asked (the result is the same whatever
  \<^verbatim>\<open>getCode\<close> would answer) and the call goes on to build the parameters for the
  transaction manager.
\<close>

theorem invalid_callTo:
  assumes "synced (getSubgraphSyncStatus env (sendingChainId (bid tp)))"
    and "synced (getSubgraphSyncStatus env (receivingChainId (bid tp)))"
    and "validateAuctionBidParams env (bid tp) = None"
    and "encodeAuctionBid env (bid tp) = Inr encodedBid"
    and "chainConfig env (sendingChainId (bid tp)) \<noteq> None"
    and "chainConfig env (receivingChainId (bid tp)) = Some provider"
    and "truthy (bidSignature tp)"
  shows "(callTo (bid tp) \<noteq> AddressZero \<and>
          (getCode provider (callTo (bid tp)) = Inr [] \<or>
           getCode provider (callTo (bid tp)) = Inr ''0x'') \<longrightarrow>
            prepareTransfer env tp =
              Inl (InvalidCallTo (transactionId (bid tp)) (callTo (bid tp)))) \<and>
         (callTo (bid tp) = AddressZero \<longrightarrow>
            (\<forall>g. prepareTransfer (withGetCode g env) tp = prepareTransfer env tp) \<and>
            prepareParams env tp =
              Inr (sendingChainId (bid tp),
                   \<lparr>pp_txData = txDataOf env (bid tp),
                    pp_encryptedCallData = encryptedCallData (bid tp),
                    pp_bidSignature = the (bidSignature tp),
                    pp_encodedBid = encodedBid,
                    pp_amount = amount (bid tp),
                    pp_expiry = expiry (bid tp)\<rparr>))"
proof -
  have bad: "prepareTransfer env tp =
      Inl (InvalidCallTo (transactionId (bid tp)) (callTo (bid tp)))"
    if "callTo (bid tp) \<noteq> AddressZero"
      and "getCode provider (callTo (bid tp)) = Inr [] \<or>
           getCode provider (callTo (bid tp)) = Inr ''0x''"
  proof -
    have "callToCheck provider (bid tp) =
        Some (InvalidCallTo (transactionId (bid tp)) (callTo (bid tp)))"
      using that by (auto simp: callToCheck_def)
    then show ?thesis
      using assms by (simp add: prepareTransfer_def prepareParams_def Let_def)
  qed
  have skipped: "prepareTransfer (withGetCode g env) tp = prepareTransfer env tp"
    if "callTo (bid tp) = AddressZero" for g
    using that
    by (simp add: prepareTransfer_def prepareParams_withGetCode withGetCode_simps
        split: sum.split prod.split)
  have built: "prepareParams env tp =
              Inr (sendingChainId (bid tp),
                   \<lparr>pp_txData = txDataOf env (bid tp),
                    pp_encryptedCallData = encryptedCallData (bid tp),
                    pp_bidSignature = the (bidSignature tp),
                    pp_encodedBid = encodedBid,
                    pp_amount = amount (bid tp),
                    pp_expiry = expiry (bid tp)\<rparr>)"
    if "callTo (bid tp) = AddressZero"
    using that assms by (simp add: prepareParams_def callToCheck_zero Let_def)
  from bad skipped built show ?thesis
    by blast
qed

theorem invalid_callTo_witness:
  "prepareTransfer env0 callsOut = Inl (InvalidCallTo ''0x01'' ''0xABCD'') \<and>
   prepareTransfer (withGetCode (\<lambda>a. Inl ''unreachable'') env0) (response 100) =
     prepareTransfer env0 (response 100)"
  using invalid_callTo [of env0 callsOut "''0x01''" "\<lparr>getCode = (\<lambda>a. Inr ''0x'')\<rparr>"]
    invalid_callTo [of env0 "response 100" "''0x01''" "\<lparr>getCode = (\<lambda>a. Inr ''0x'')\<rparr>"]
  by (simp add: callsOut_def response_def bid0_def env0_simps getSubgraphSyncStatus_def
      truthy_def sigA_def AddressZero_def)

subsection \<open>Fulfilment through relayers\<close>

lemma includes_prefix: "prefix sub s \<Longrightarrow> includes_str s sub"
  by (cases s) simp_all

lemma timeout_message: "includes_str (''Evt timeout after '' @ rest) ''Evt timeout''"
  by (rule includes_prefix) simp

lemma evt_waitFor_timeout:
  assumes "\<forall>(t, e) \<in> set evs. \<not> (t < timeout \<and> flt e)"
  shows "evt_waitFor timeout flt evs = Inl (''Evt timeout after '' @ decimal timeout @ ''ms'')"
proof -
  have "find (\<lambda>(t, e). t < timeout \<and> flt e) evs = None"
    using assms by (auto simp: find_None_iff)
  then show ?thesis
    by (simp add: evt_waitFor_def)
qed

lemma evt_waitFor_first:
  assumes "find (\<lambda>(t, e). t < timeout \<and> flt e) evs = Some (t, e)"
  shows "evt_waitFor timeout flt evs = Inr e"
  using assms by (simp add: evt_waitFor_def)

text \<open>
  C9. A call of \<^verbatim>\<open>fulfillTransfer\<close> with \<^verbatim>\<open>useRelayers\<close> that reaches the relayer
  path (valid event, configured chains, messaging connected, request published): if no
  \<^verbatim>\<open>ReceiverTransactionFulfilled\<close> event with the transaction identifier of the
  transfer is emitted less than \<open>META_TX_TIMEOUT = 300000\<close> milliseconds after the
  wait is registered, the call rejects with \<open>MetaTxTimeout\<close>; otherwise it returns
  the \<^verbatim>\<open>metaTxResponse\<close> made from the first such event.
\<close>

theorem meta_tx_timeout:
  assumes "validateTransactionPrepareEvent env params = None"
    and "chainConfig env (tx_sendingChainId (ev_txData params)) \<noteq> None"
    and "chainConfig env (tx_receivingChainId (ev_txData params)) \<noteq> None"
    and "ensureConnected env = None"
    and "\<forall>request inbox. publishMetaTxRequest env request inbox = None"
  shows "((\<forall>(t, e) \<in> set events.
             \<not> (t < META_TX_TIMEOUT \<and>
                tx_transactionId (fe_txData e) = tx_transactionId (ev_txData params))) \<longrightarrow>
          fulfillTransfer env params fulfillSignature decryptedCallData relayerFee True events =
            Inl (MetaTxTimeout (tx_transactionId (ev_txData params)) 300000)) \<and>
         (\<forall>t e. find (\<lambda>(t, e). t < META_TX_TIMEOUT \<and>
                        tx_transactionId (fe_txData e) = tx_transactionId (ev_txData params))
                  events = Some (t, e) \<longrightarrow>
          fulfillTransfer env params fulfillSignature decryptedCallData relayerFee True events =
            Inr \<lparr>fulfillRequest = None,
                 metaTxResponse =
                   Some \<lparr>mt_transactionHash = fe_transactionHash e,
                         mt_chainId = tx_receivingChainId (fe_txData e)\<rparr>\<rparr>)"
proof -
  let ?flt = "\<lambda>data. tx_transactionId (fe_txData data) = tx_transactionId (ev_txData params)"
  have run: "fulfillTransfer env params fulfillSignature decryptedCallData relayerFee True events =
      (case subgraph_waitFor META_TX_TIMEOUT ?flt events of
         Inr ev \<Rightarrow>
           Inr \<lparr>fulfillRequest = None,
                metaTxResponse =
                  Some \<lparr>mt_transactionHash = fe_transactionHash ev,
                        mt_chainId = tx_receivingChainId (fe_txData ev)\<rparr>\<rparr>
       | Inl msg \<Rightarrow>
           Inl (if includes_str msg ''Evt timeout''
                then MetaTxTimeout (tx_transactionId (ev_txData params)) META_TX_TIMEOUT
                else JsError msg))"
    using assms by (auto simp add: fulfillTransfer_def Let_def)
  have late: "fulfillTransfer env params fulfillSignature decryptedCallData relayerFee True events =
            Inl (MetaTxTimeout (tx_transactionId (ev_txData params)) 300000)"
    if "\<forall>(t, e) \<in> set events. \<not> (t < META_TX_TIMEOUT \<and> ?flt e)"
    using evt_waitFor_timeout [OF that]
    by (simp add: run subgraph_waitFor_def timeout_message META_TX_TIMEOUT_def)
  have early: "fulfillTransfer env params fulfillSignature decryptedCallData relayerFee True events =
            Inr \<lparr>fulfillRequest = None,
                 metaTxResponse =
                   Some \<lparr>mt_transactionHash = fe_transactionHash e,
                         mt_chainId = tx_receivingChainId (fe_txData e)\<rparr>\<rparr>"
    if "find (\<lambda>(t, e). t < META_TX_TIMEOUT \<and> ?flt e) events = Some (t, e)" for t e
    using evt_waitFor_first [OF that]
    by (simp add: run subgraph_waitFor_def)
  from late early show ?thesis
    by blast
qed

lemma prepared0_simps:
  "tx_transactionId (ev_txData prepared0) = ''0x01''"
  "tx_sendingChainId (ev_txData prepared0) = 1337"
  "tx_receivingChainId (ev_txData prepared0) = 1338"
  by (simp_all add: prepared0_def txData0_def)

lemma fulfilled_simps:
  "tx_transactionId (fe_txData (fulfilled tid)) = tid"
  "tx_receivingChainId (fe_txData (fulfilled tid)) = 1338"
  "fe_transactionHash (fulfilled tid) = ''0xf00d''"
  by (simp_all add: fulfilled_def txData0_def)

text \<open>
  The matching event arrives at the deadline, after an event of another transfer: the
  call times out. It arrives one millisecond earlier: the call returns its hash.
\<close>

theorem meta_tx_timeout_witness:
  "fulfillTransfer env0 prepared0 ''0x51'' ''0x'' 0 True
     [(1000, fulfilled ''0x02''), (300000, fulfilled ''0x01'')] =
     Inl (MetaTxTimeout ''0x01'' 300000) \<and>
   fulfillTransfer env0 prepared0 ''0x51'' ''0x'' 0 True
     [(1000, fulfilled ''0x02''), (299999, fulfilled ''0x01'')] =
     Inr \<lparr>fulfillRequest = None,
          metaTxResponse = Some \<lparr>mt_transactionHash = ''0xf00d'', mt_chainId = 1338\<rparr>\<rparr>"
  using meta_tx_timeout [of env0 prepared0
      "[(1000, fulfilled ''0x02''), (300000, fulfilled ''0x01'')]" "''0x51''" "''0x''" 0]
    meta_tx_timeout [of env0 prepared0
      "[(1000, fulfilled ''0x02''), (299999, fulfilled ''0x01'')]" "''0x51''" "''0x''" 0]
  by (simp add: env0_simps prepared0_simps fulfilled_simps ensureConnected_def
      META_TX_TIMEOUT_def)

end
